theory Spec2Isabelle
  imports Complex_Main "HOL-Library.Word"
begin

unbundle bit_operations_syntax

section \<open>Basic types and constants\<close>

text \<open>
  ROOT's \<open>Float_t\<close> is embedded as \<open>real\<close> (exact arithmetic, no rounding, no
  infinities), \<open>Int_t\<close> and \<open>Long64_t\<close> as \<open>int\<close>, \<open>UInt_t\<close> as a 32-bit word.
  The theorems below are about which branch the code takes and which expression it
  stores; none of them depends on rounding. Division by zero is not modelled: where
  a divisor can be zero (a bin error used as width, the length of a zero vector) the
  source yields an infinity or a NaN and HOL's quotient is 0; the theorems say which
  quotient is stored, and every example has non-zero divisors.
\<close>

type_synonym Float_t = real
type_synonym Int_t = int
type_synonym UInt_t = "32 word"

text \<open>
  Modelled from the spec: \<open>QnCorrectionsFatal\<close> is a macro of QnCorrectionsLog.h, which
  is not under src/. The spec calls these failures "fatal, process-terminating", so a
  call of the macro ends the computation with the value \<open>Inl Fatal\<close>.
\<close>

datatype error = Fatal

text \<open>\<open>fMinimumSignificantValue = 1e-6\<close> (the same value in all three classes).\<close>

definition fMinimumSignificantValue :: Float_t where
  "fMinimumSignificantValue = 1 / 1000000"

text \<open>
  \<open>nMaxHarmonicNumberSupported = 15\<close> in QnCorrectionsQnVectors.cxx; the macro
  \<open>MAXHARMONICNUMBERSUPPORTED\<close> of the newer class comes from its header (not under
  src/) and sizes the same sixteen-entry mask table.
\<close>

definition nMaxHarmonicNumberSupported :: Int_t where
  "nMaxHarmonicNumberSupported = 15"

definition MAXHARMONICNUMBERSUPPORTED :: Int_t where
  "MAXHARMONICNUMBERSUPPORTED = 15"

definition harmonicNumberMask_table :: "UInt_t list" where
  "harmonicNumberMask_table =
     [0x0000, 0x0002, 0x0004, 0x0008, 0x0010, 0x0020, 0x0040, 0x0080,
      0x0100, 0x0200, 0x0400, 0x0800, 0x1000, 0x2000, 0x4000, 0x8000]"

text \<open>
  Reading the table outside \<open>0..15\<close> is undefined behaviour in the source; the model
  leaves the value unspecified there.
\<close>

definition harmonicNumberMask :: "Int_t \<Rightarrow> UInt_t" where
  "harmonicNumberMask h =
     (if 0 \<le> h \<and> h \<le> 15 then harmonicNumberMask_table ! nat h else undefined)"

section \<open>The Qn vector classes\<close>

text \<open>
  \<open>QnCorrectionsQnVector\<close>: the arrays \<open>fQnX\<close>, \<open>fQnY\<close> of
  \<open>MAXHARMONICNUMBERSUPPORTED + 1\<close> floats are functions of the index (the source
  only defines indices \<open>0..15\<close>), \<open>fName\<close> and \<open>fTitle\<close> are the \<open>TNamed\<close> part.
  The class of QnCorrectionsQnVectors.cxx is the same one without \<open>fGoodQuality\<close> and
  without the name; its member functions are embedded over the same record and never
  read or write those fields.
\<close>

record QnVector =
  fName :: string
  fTitle :: string
  fQnX :: "Int_t \<Rightarrow> Float_t"
  fQnY :: "Int_t \<Rightarrow> Float_t"
  fHighestHarmonic :: Int_t
  fHarmonicMask :: UInt_t
  fGoodQuality :: bool

text \<open>\<open>QnCorrectionsQnVectorBuild\<close> derives from \<open>QnCorrectionsQnVector\<close>.\<close>

record QnVectorBuild = QnVector +
  fSumW :: Float_t
  fN :: Int_t

text \<open>
  The loop \<open>for (Int_t h = start; h < bound; h++) body\<close>. In every loop of the source
  the bound is \<open>fHighestHarmonic + 1\<close> (or a parameter) and the body never assigns it,
  so the bound is evaluated once.
\<close>

function for_loop :: "Int_t \<Rightarrow> Int_t \<Rightarrow> (Int_t \<Rightarrow> 'a \<Rightarrow> 'a) \<Rightarrow> 'a \<Rightarrow> 'a" where
  "for_loop h bound body s =
     (if h < bound then for_loop (h + 1) bound body (body h s) else s)"
  by pat_completeness auto
termination
  by (relation "measure (\<lambda>(h, bound, body, s). nat (bound - h))") auto

declare for_loop.simps [simp del]

subsection \<open>Inline members of the header\<close>

text \<open>
  Modelled from the spec: \<open>Qx\<close>, \<open>Qy\<close>, \<open>SetQx\<close>, \<open>SetQy\<close>, \<open>SetGood\<close>,
  \<open>IsGoodQuality\<close>, \<open>Length\<close>, \<open>QxNorm\<close>, \<open>QyNorm\<close>, \<open>GetFirstHarmonic\<close> and
  \<open>GetNextHarmonic\<close> are inline members declared in QnCorrectionsQnVector.h, which is
  not under src/. The spec's data model is "components: mapping harmonic -> (x,y),
  quality: bool"; \<open>|Q|\<close> is "that harmonic's vector length"; first/next "produce the
  ascending sequence of active harmonic numbers" and "return a sentinel, e.g. -1, when
  exhausted". The iteration scans as \<open>GetHarmonicsMap\<close> (which is under src/) does:
  \<open>h\<close> from 1 to \<open>fHighestHarmonic\<close>, testing the mask bit.
\<close>

definition Qx :: "'a QnVector_scheme \<Rightarrow> Int_t \<Rightarrow> Float_t" where
  "Qx v harmonic = fQnX v harmonic"

definition Qy :: "'a QnVector_scheme \<Rightarrow> Int_t \<Rightarrow> Float_t" where
  "Qy v harmonic = fQnY v harmonic"

definition SetQx :: "Int_t \<Rightarrow> Float_t \<Rightarrow> 'a QnVector_scheme \<Rightarrow> 'a QnVector_scheme" where
  "SetQx harmonic qx v = v\<lparr>fQnX := (fQnX v)(harmonic := qx)\<rparr>"

definition SetQy :: "Int_t \<Rightarrow> Float_t \<Rightarrow> 'a QnVector_scheme \<Rightarrow> 'a QnVector_scheme" where
  "SetQy harmonic qy v = v\<lparr>fQnY := (fQnY v)(harmonic := qy)\<rparr>"

definition SetGood :: "bool \<Rightarrow> 'a QnVector_scheme \<Rightarrow> 'a QnVector_scheme" where
  "SetGood good v = v\<lparr>fGoodQuality := good\<rparr>"

definition IsGoodQuality :: "'a QnVector_scheme \<Rightarrow> bool" where
  "IsGoodQuality v = fGoodQuality v"

definition Length :: "'a QnVector_scheme \<Rightarrow> Int_t \<Rightarrow> Float_t" where
  "Length v harmonic = sqrt (Qx v harmonic * Qx v harmonic + Qy v harmonic * Qy v harmonic)"

definition QxNorm :: "'a QnVector_scheme \<Rightarrow> Int_t \<Rightarrow> Float_t" where
  "QxNorm v harmonic = Qx v harmonic / Length v harmonic"

definition QyNorm :: "'a QnVector_scheme \<Rightarrow> Int_t \<Rightarrow> Float_t" where
  "QyNorm v harmonic = Qy v harmonic / Length v harmonic"

text \<open>
  The mask test of QnCorrectionsQnVector.cxx (inside QnCorrectionsDataVector.cxx):
  \<open>(fHarmonicMask & harmonicNumberMask[h]) == harmonicNumberMask[h]\<close>.
\<close>

definition harmonicBitSet :: "'a QnVector_scheme \<Rightarrow> Int_t \<Rightarrow> bool" where
  "harmonicBitSet v h \<longleftrightarrow>
     (fHarmonicMask v AND harmonicNumberMask h) = harmonicNumberMask h"

text \<open>
  The test as QnCorrectionsQnVectors.cxx writes it, without the parentheses:
  \<open>fHarmonicMask & harmonicNumberMask[h] == harmonicNumberMask[h]\<close>. In C++ \<open>==\<close>
  binds tighter than \<open>&\<close>, so the comparison is evaluated first, converts to 0 or 1,
  and the condition is whether \<open>fHarmonicMask & (0 or 1)\<close> is non-zero.
\<close>

definition harmonicBitSet_QnVectors :: "'a QnVector_scheme \<Rightarrow> Int_t \<Rightarrow> bool" where
  "harmonicBitSet_QnVectors v h \<longleftrightarrow>
     (fHarmonicMask v AND (if harmonicNumberMask h = harmonicNumberMask h then 1 else 0)) \<noteq> 0"

text \<open>\<open>GetHarmonicsMap\<close>: the harmonics the vector handles, in ascending order.\<close>

definition GetHarmonicsMap :: "'a QnVector_scheme \<Rightarrow> Int_t list" where
  "GetHarmonicsMap v =
     for_loop 1 (fHighestHarmonic v + 1)
       (\<lambda>h harmonicMapStore. if harmonicBitSet v h then harmonicMapStore @ [h] else harmonicMapStore)
       []"

subsection \<open>QnCorrectionsQnVector.cxx (the second half of QnCorrectionsDataVector.cxx)\<close>

definition ActivateHarmonic :: "Int_t \<Rightarrow> 'a QnVector_scheme \<Rightarrow> error + 'a QnVector_scheme" where
  "ActivateHarmonic harmonic v =
     (if MAXHARMONICNUMBERSUPPORTED < harmonic then Inl Fatal
      else if fHighestHarmonic v < harmonic then
        Inr (v\<lparr>fHighestHarmonic := harmonic,
                fHarmonicMask := fHarmonicMask v OR harmonicNumberMask harmonic,
                fQnX := (fQnX v)(harmonic := 0),
                fQnY := (fQnY v)(harmonic := 0)\<rparr>)
      else if harmonicBitSet v harmonic then Inr v
      else
        Inr (v\<lparr>fHarmonicMask := fHarmonicMask v OR harmonicNumberMask harmonic,
                fQnX := (fQnX v)(harmonic := 0),
                fQnY := (fQnY v)(harmonic := 0)\<rparr>))"

text \<open>
  \<open>Set(Qn, changename)\<close>: the receiver is the second argument. \<open>memcpy\<close> of the two
  whole arrays is the copy of the two functions.
\<close>

definition Set :: "'b QnVector_scheme \<Rightarrow> bool \<Rightarrow> 'a QnVector_scheme \<Rightarrow> error + 'a QnVector_scheme" where
  "Set Qn changename v =
     (if fHighestHarmonic v \<noteq> fHighestHarmonic Qn \<or> fHarmonicMask v \<noteq> fHarmonicMask Qn
      then Inl Fatal
      else
        (let v1 = v\<lparr>fQnX := fQnX Qn, fQnY := fQnY Qn, fGoodQuality := fGoodQuality Qn\<rparr>
         in if changename then Inr (v1\<lparr>fName := fName Qn, fTitle := fTitle Qn\<rparr>)
            else Inr v1))"

definition Normalize_body :: "Int_t \<Rightarrow> 'a QnVector_scheme \<Rightarrow> 'a QnVector_scheme" where
  "Normalize_body h v =
     (if harmonicBitSet v h then
        (let v1 = v\<lparr>fQnX := (fQnX v)(h := QxNorm v h)\<rparr>
         in v1\<lparr>fQnY := (fQnY v1)(h := QyNorm v1 h)\<rparr>)
      else v)"

definition Normalize :: "'a QnVector_scheme \<Rightarrow> 'a QnVector_scheme" where
  "Normalize v = for_loop 1 (fHighestHarmonic v + 1) Normalize_body v"

definition Reset :: "'a QnVector_scheme \<Rightarrow> 'a QnVector_scheme" where
  "Reset v = v\<lparr>fQnX := (\<lambda>_. 0), fQnY := (\<lambda>_. 0), fGoodQuality := False\<rparr>"

definition NormalizeQoverM_body :: "Int_t \<Rightarrow> QnVectorBuild \<Rightarrow> QnVectorBuild" where
  "NormalizeQoverM_body h v =
     (if harmonicBitSet v h then
        (let v1 = v\<lparr>fQnX := (fQnX v)(h := fQnX v h / fSumW v)\<rparr>
         in v1\<lparr>fQnY := (fQnY v1)(h := fQnY v1 h / fSumW v1)\<rparr>)
      else v)"

definition NormalizeQoverM :: "QnVectorBuild \<Rightarrow> QnVectorBuild" where
  "NormalizeQoverM v =
     (if fSumW v < fMinimumSignificantValue then v
      else for_loop 1 (fHighestHarmonic v + 1) NormalizeQoverM_body v)"

definition NormalizeQoverSquareRootOfM_body :: "Int_t \<Rightarrow> QnVectorBuild \<Rightarrow> QnVectorBuild" where
  "NormalizeQoverSquareRootOfM_body h v =
     (if harmonicBitSet v h then
        (let v1 = v\<lparr>fQnX := (fQnX v)(h := fQnX v h + fQnX v h / sqrt (fSumW v))\<rparr>
         in v1\<lparr>fQnY := (fQnY v1)(h := fQnY v1 h + fQnY v1 h / sqrt (fSumW v1))\<rparr>)
      else v)"

definition NormalizeQoverSquareRootOfM :: "QnVectorBuild \<Rightarrow> QnVectorBuild" where
  "NormalizeQoverSquareRootOfM v =
     (if fSumW v < fMinimumSignificantValue then v
      else for_loop 1 (fHighestHarmonic v + 1) NormalizeQoverSquareRootOfM_body v)"

subsection \<open>QnCorrectionsQnVectors.cxx\<close>

definition ActivateHarmonic_QnVectors ::
  "Int_t \<Rightarrow> 'a QnVector_scheme \<Rightarrow> error + 'a QnVector_scheme" where
  "ActivateHarmonic_QnVectors harmonic v =
     (if nMaxHarmonicNumberSupported < harmonic then Inl Fatal
      else if fHighestHarmonic v < harmonic then
        Inr (v\<lparr>fHighestHarmonic := harmonic,
                fHarmonicMask := fHarmonicMask v OR harmonicNumberMask harmonic,
                fQnX := (fQnX v)(harmonic := 0),
                fQnY := (fQnY v)(harmonic := 0)\<rparr>)
      else if harmonicBitSet_QnVectors v harmonic then Inr v
      else
        Inr (v\<lparr>fHarmonicMask := fHarmonicMask v OR harmonicNumberMask harmonic,
                fQnX := (fQnX v)(harmonic := 0),
                fQnY := (fQnY v)(harmonic := 0)\<rparr>))"

text \<open>This \<open>Set(Qn)\<close> compares nothing and copies the harmonic structure as well.\<close>

definition Set_QnVectors :: "'b QnVector_scheme \<Rightarrow> 'a QnVector_scheme \<Rightarrow> error + 'a QnVector_scheme" where
  "Set_QnVectors Qn v =
     Inr (v\<lparr>fQnX := fQnX Qn, fQnY := fQnY Qn,
             fHighestHarmonic := fHighestHarmonic Qn,
             fHarmonicMask := fHarmonicMask Qn\<rparr>)"

definition Normalize_QnVectors_body :: "Int_t \<Rightarrow> 'a QnVector_scheme \<Rightarrow> 'a QnVector_scheme" where
  "Normalize_QnVectors_body h v =
     (if harmonicBitSet_QnVectors v h then
        (let v1 = v\<lparr>fQnX := (fQnX v)(h := QxNorm v h)\<rparr>
         in v1\<lparr>fQnY := (fQnY v1)(h := QyNorm v1 h)\<rparr>)
      else v)"

definition Normalize_QnVectors :: "'a QnVector_scheme \<Rightarrow> 'a QnVector_scheme" where
  "Normalize_QnVectors v = for_loop 1 (fHighestHarmonic v + 1) Normalize_QnVectors_body v"

text \<open>
  Here the loop is the body of \<open>if (fSumW < fMinimumSignificantValue)\<close>, and the
  assignment is \<open>+=\<close>.
\<close>

definition NormalizeQoverM_QnVectors_body :: "Int_t \<Rightarrow> QnVectorBuild \<Rightarrow> QnVectorBuild" where
  "NormalizeQoverM_QnVectors_body h v =
     (if harmonicBitSet_QnVectors v h then
        (let v1 = v\<lparr>fQnX := (fQnX v)(h := fQnX v h + fQnX v h / fSumW v)\<rparr>
         in v1\<lparr>fQnY := (fQnY v1)(h := fQnY v1 h + fQnY v1 h / fSumW v1)\<rparr>)
      else v)"

definition NormalizeQoverM_QnVectors :: "QnVectorBuild \<Rightarrow> QnVectorBuild" where
  "NormalizeQoverM_QnVectors v =
     (if fSumW v < fMinimumSignificantValue
      then for_loop 1 (fHighestHarmonic v + 1) NormalizeQoverM_QnVectors_body v
      else v)"

definition NormalizeQoverSquareRootOfM_QnVectors_body :: "Int_t \<Rightarrow> QnVectorBuild \<Rightarrow> QnVectorBuild" where
  "NormalizeQoverSquareRootOfM_QnVectors_body h v =
     (if harmonicBitSet_QnVectors v h then
        (let v1 = v\<lparr>fQnX := (fQnX v)(h := fQnX v h + fQnX v h / sqrt (fSumW v))\<rparr>
         in v1\<lparr>fQnY := (fQnY v1)(h := fQnY v1 h + fQnY v1 h / sqrt (fSumW v1))\<rparr>)
      else v)"

definition NormalizeQoverSquareRootOfM_QnVectors :: "QnVectorBuild \<Rightarrow> QnVectorBuild" where
  "NormalizeQoverSquareRootOfM_QnVectors v =
     (if fSumW v < fMinimumSignificantValue
      then for_loop 1 (fHighestHarmonic v + 1) NormalizeQoverSquareRootOfM_QnVectors_body v
      else v)"

subsection \<open>The constructor of QnCorrectionsQnVector.cxx\<close>

text \<open>
  The normal constructor \<open>QnCorrectionsQnVector(name, nNoOfHarmonics, harmonicMap)\<close>.
  \<open>harmonicMap\<close> is \<open>None\<close> for the \<open>NULL\<close> pointer; \<open>harmonicMap[i]\<close> is the list
  read \<open>xs ! nat i\<close> (the caller passes at least \<open>nNoOfHarmonics\<close> entries). The loop
  state is the pair \<open>(currentHarmonic, fHarmonicMask)\<close>.
\<close>

definition QnVector_ctor_body ::
  "Int_t list option \<Rightarrow> Int_t \<Rightarrow> Int_t \<times> UInt_t \<Rightarrow> Int_t \<times> UInt_t" where
  "QnVector_ctor_body harmonicMap h st =
     (let currentHarmonic =
            (case harmonicMap of Some xs \<Rightarrow> xs ! nat h | None \<Rightarrow> fst st + 1)
      in (currentHarmonic, snd st OR harmonicNumberMask currentHarmonic))"

definition QnVector_ctor :: "string \<Rightarrow> Int_t \<Rightarrow> Int_t list option \<Rightarrow> error + QnVector" where
  "QnVector_ctor name nNoOfHarmonics harmonicMap =
     (let highest =
            (case harmonicMap of Some xs \<Rightarrow> xs ! nat (nNoOfHarmonics - 1) | None \<Rightarrow> nNoOfHarmonics)
      in if MAXHARMONICNUMBERSUPPORTED < highest then Inl Fatal
         else Inr \<lparr>fName = name, fTitle = name,
                   fQnX = (\<lambda>_. 0), fQnY = (\<lambda>_. 0),
                   fHighestHarmonic = highest,
                   fHarmonicMask =
                     snd (for_loop 0 nNoOfHarmonics (QnVector_ctor_body harmonicMap) (0, 0x0000)),
                   fGoodQuality = False\<rparr>)"

text \<open>
  Modelled from the spec: \<open>GetFirstHarmonic\<close> and \<open>GetNextHarmonic\<close> (header, see
  above). Both scan upwards from a start value and return the first harmonic whose
  mask bit is set, or -1.
\<close>

function harmonic_scan :: "'a QnVector_scheme \<Rightarrow> Int_t \<Rightarrow> Int_t" where
  "harmonic_scan v h =
     (if h < fHighestHarmonic v + 1
      then (if harmonicBitSet v h then h else harmonic_scan v (h + 1))
      else -1)"
  by pat_completeness auto
termination
  by (relation "measure (\<lambda>(v, h). nat (fHighestHarmonic v + 1 - h))") auto

declare harmonic_scan.simps [simp del]

definition GetFirstHarmonic :: "'a QnVector_scheme \<Rightarrow> Int_t" where
  "GetFirstHarmonic v = harmonic_scan v 1"

definition GetNextHarmonic :: "'a QnVector_scheme \<Rightarrow> Int_t \<Rightarrow> Int_t" where
  "GetNextHarmonic v harmonic = harmonic_scan v (harmonic + 1)"

text \<open>
  The harmonics every loop of the source visits and treats: \<open>h\<close> from 1 to
  \<open>fHighestHarmonic\<close> with the mask bit set.
\<close>

definition activeHarmonic :: "'a QnVector_scheme \<Rightarrow> Int_t \<Rightarrow> bool" where
  "activeHarmonic v h \<longleftrightarrow> 1 \<le> h \<and> h \<le> fHighestHarmonic v \<and> harmonicBitSet v h"

section \<open>The calibration store (external collaborator)\<close>

text \<open>
  Modelled from the spec: the histogram classes \<open>QnCorrectionsProfileComponents\<close>,
  \<open>QnCorrectionsHistogramSparse\<close>, \<open>QnCorrectionsProfileChannelizedIngress\<close> and
  \<open>QnCorrectionsProfileChannelized\<close> are not under src/. The spec describes them as
  an "opaque keyed accumulator supporting fill(key, value, weight) and
  read(key) -> {content, error/width, validated}", keyed by the event class (the bin
  of the variable container) plus a harmonic or channel id, a bin being validated by a
  "minimum-entry threshold". The read side is a record of the values the store
  returns; \<open>Fill\<close> adds the weight to the content of the event's bin.
\<close>

type_synonym variableContainer = "Float_t list"
type_synonym Long64_t = int

record QnCorrectionsProfileComponents =
  pcGetBin :: "variableContainer \<Rightarrow> Long64_t"
  pcNoOfEntriesThreshold :: Int_t
  pcEntries :: "Long64_t \<Rightarrow> Int_t"
  pcXBinContent :: "Int_t \<Rightarrow> Long64_t \<Rightarrow> Float_t"
  pcYBinContent :: "Int_t \<Rightarrow> Long64_t \<Rightarrow> Float_t"
  pcXBinError :: "Int_t \<Rightarrow> Long64_t \<Rightarrow> Float_t"
  pcYBinError :: "Int_t \<Rightarrow> Long64_t \<Rightarrow> Float_t"

definition BinContentValidated :: "QnCorrectionsProfileComponents \<Rightarrow> Long64_t \<Rightarrow> bool" where
  "BinContentValidated hist bin \<longleftrightarrow> pcNoOfEntriesThreshold hist \<le> pcEntries hist bin"

record QnCorrectionsHistogramSparse =
  hsGetBin :: "variableContainer \<Rightarrow> Long64_t"
  hsBinContent :: "Long64_t \<Rightarrow> Float_t"

definition Fill ::
  "variableContainer \<Rightarrow> Float_t \<Rightarrow> QnCorrectionsHistogramSparse \<Rightarrow> QnCorrectionsHistogramSparse" where
  "Fill variableContainer weight hist =
     hist\<lparr>hsBinContent :=
            (hsBinContent hist)(hsGetBin hist variableContainer :=
               hsBinContent hist (hsGetBin hist variableContainer) + weight)\<rparr>"

record QnCorrectionsProfileChannelizedIngress =
  ciGetBin :: "variableContainer \<Rightarrow> Int_t \<Rightarrow> Long64_t"
  ciGetBinContent :: "Long64_t \<Rightarrow> Float_t"
  ciGetBinError :: "Long64_t \<Rightarrow> Float_t"
  ciGetGrpBin :: "variableContainer \<Rightarrow> Int_t \<Rightarrow> Long64_t"
  ciGetGrpBinContent :: "Long64_t \<Rightarrow> Float_t"

text \<open>
  The calibration profile being collected is kept as the sequence of its \<open>Fill\<close>
  calls: (variable container, channel id, weight).
\<close>

type_synonym QnCorrectionsProfileChannelized = "(variableContainer \<times> Int_t \<times> Float_t) list"

definition FillChannelized ::
  "variableContainer \<Rightarrow> Int_t \<Rightarrow> Float_t \<Rightarrow> QnCorrectionsProfileChannelized
   \<Rightarrow> QnCorrectionsProfileChannelized" where
  "FillChannelized variableContainer nChannel weight hist =
     hist @ [(variableContainer, nChannel, weight)]"

section \<open>Data vectors and the detector configuration\<close>

record QnCorrectionsDataVectorChannelized =
  fPhi :: Float_t
  fId :: Int_t
  fWeight :: Float_t
  fEqualizedWeight :: Float_t

definition Weight :: "QnCorrectionsDataVectorChannelized \<Rightarrow> Float_t" where
  "Weight dataVector = fWeight dataVector"

definition GetId :: "QnCorrectionsDataVectorChannelized \<Rightarrow> Int_t" where
  "GetId dataVector = fId dataVector"

definition SetEqualizedWeight ::
  "Float_t \<Rightarrow> QnCorrectionsDataVectorChannelized \<Rightarrow> QnCorrectionsDataVectorChannelized" where
  "SetEqualizedWeight weight dataVector = dataVector\<lparr>fEqualizedWeight := weight\<rparr>"

text \<open>
  Modelled from the spec: \<open>GetCurrentQnVector\<close>, \<open>UpdateCurrentQnVector\<close> and
  \<open>GetInputDataBank\<close> are declared in QnCorrectionsDetectorConfigurationBase.h, which is
  not under src/. The spec: a detector configuration owns "one current QnVector
  pointer (aliases whichever corrected output is latest)", and a step "possibly
  replaces current with its own corrected output". The current vector is kept by
  value: no claim below depends on the aliasing.
\<close>

record QnCorrectionsDetectorConfigurationBase =
  fCurrentQnVector :: QnVector
  fDataVectorBank :: "QnCorrectionsDataVectorChannelized list"

definition GetCurrentQnVector :: "QnCorrectionsDetectorConfigurationBase \<Rightarrow> QnVector" where
  "GetCurrentQnVector cfg = fCurrentQnVector cfg"

definition UpdateCurrentQnVector ::
  "QnVector \<Rightarrow> QnCorrectionsDetectorConfigurationBase \<Rightarrow> QnCorrectionsDetectorConfigurationBase" where
  "UpdateCurrentQnVector newQnVector cfg = cfg\<lparr>fCurrentQnVector := newQnVector\<rparr>"

definition GetInputDataBank ::
  "QnCorrectionsDetectorConfigurationBase \<Rightarrow> QnCorrectionsDataVectorChannelized list" where
  "GetInputDataBank cfg = fDataVectorBank cfg"

section \<open>Correction steps\<close>

datatype QnCorrectionStepStatus =
  QCORRSTEP_calibration | QCORRSTEP_applyCollect | QCORRSTEP_apply

text \<open>The members every correction step inherits from its base class.\<close>

record QnCorrectionsCorrectionStepBase =
  fState :: QnCorrectionStepStatus
  fDetectorConfiguration :: QnCorrectionsDetectorConfigurationBase

subsection \<open>QnCorrectionsQnVectorRecentering.cxx\<close>

definition fDefaultMinNoOfEntries :: Int_t where
  "fDefaultMinNoOfEntries = 2"

record QnCorrectionsQnVectorRecentering = QnCorrectionsCorrectionStepBase +
  fCorrectedQnVector :: QnVector
  fInputHistograms :: QnCorrectionsProfileComponents
  fQANotValidatedBin :: "QnCorrectionsHistogramSparse option"
  fApplyWidthEqualization :: bool
  fMinNoOfEntriesToValidate :: Int_t

text \<open>
  The \<open>while (harmonic != -1)\<close> loop of \<open>ProcessCorrections\<close>. \<open>current\<close> is the
  detector configuration's current Qn vector, \<open>corrected\<close> the step's own output.
\<close>

function ProcessCorrections_loop ::
  "QnVector \<Rightarrow> QnCorrectionsProfileComponents \<Rightarrow> bool \<Rightarrow> Long64_t \<Rightarrow> Int_t \<Rightarrow> QnVector \<Rightarrow> QnVector" where
  "ProcessCorrections_loop current hist applyWidthEqualization bin harmonic corrected =
     (if harmonic \<noteq> -1 then
        (let widthX = (if applyWidthEqualization then pcXBinError hist harmonic bin else 1);
             widthY = (if applyWidthEqualization then pcYBinError hist harmonic bin else 1);
             corrected1 =
               SetQx harmonic ((Qx current harmonic - pcXBinContent hist harmonic bin) / widthX) corrected;
             corrected2 =
               SetQy harmonic ((Qy current harmonic - pcYBinContent hist harmonic bin) / widthY) corrected1
         in ProcessCorrections_loop current hist applyWidthEqualization bin
              (GetNextHarmonic current harmonic) corrected2)
      else corrected)"
  by pat_completeness auto

text \<open>The scan returns -1 or a harmonic at or above its start whose bit is set.\<close>

lemma harmonic_scan_range:
  "harmonic_scan v h = -1 \<or>
   (h \<le> harmonic_scan v h \<and> harmonic_scan v h \<le> fHighestHarmonic v \<and>
    harmonicBitSet v (harmonic_scan v h))"
proof (induction v h rule: harmonic_scan.induct)
  case (1 v h)
  then show ?case
    by (subst (1 2 3 4) harmonic_scan.simps) auto
qed

termination ProcessCorrections_loop
proof (relation "measure (\<lambda>(current, hist, weq, bin, harmonic, corrected).
          if harmonic = -1 then 0 else 1 + nat (fHighestHarmonic current + 2 - harmonic))", goal_cases)
  case 1
  then show ?case by simp
next
  case (2 current hist weq bin harmonic corrected wx wy c1 c2)
  then show ?case
    using harmonic_scan_range [of current "harmonic + 1"]
    by (auto simp: GetNextHarmonic_def)
qed

declare ProcessCorrections_loop.simps [simp del]

text \<open>
  \<open>ProcessCorrections\<close>. The result is the returned \<open>Bool_t\<close> and the step after the
  call, or \<open>Inl Fatal\<close> when \<open>Set\<close> stops the program. The \<open>QnCorrectionsInfo\<close> log
  line has no effect on the state.
\<close>

definition ProcessCorrections ::
  "variableContainer \<Rightarrow> QnCorrectionsQnVectorRecentering
   \<Rightarrow> error + (bool \<times> QnCorrectionsQnVectorRecentering)" where
  "ProcessCorrections variableContainer s =
     (case fState s of
        QCORRSTEP_calibration \<Rightarrow> Inr (False, s)
      | _ \<Rightarrow>
        (let current = GetCurrentQnVector (fDetectorConfiguration s);
             applied =
               (if IsGoodQuality current then
                  (case Set current False (fCorrectedQnVector s) of
                     Inl e \<Rightarrow> Inl e
                   | Inr corrected \<Rightarrow>
                       (let harmonic = GetFirstHarmonic current;
                            bin = pcGetBin (fInputHistograms s) variableContainer
                        in if BinContentValidated (fInputHistograms s) bin then
                             Inr (s\<lparr>fCorrectedQnVector :=
                                      ProcessCorrections_loop current (fInputHistograms s)
                                        (fApplyWidthEqualization s) bin harmonic corrected\<rparr>)
                           else
                             Inr (s\<lparr>fCorrectedQnVector := corrected,
                                     fQANotValidatedBin :=
                                       (case fQANotValidatedBin s of
                                          None \<Rightarrow> None
                                        | Some h \<Rightarrow> Some (Fill variableContainer 1 h))\<rparr>)))
                else Inr (s\<lparr>fCorrectedQnVector := SetGood False (fCorrectedQnVector s)\<rparr>))
         in case applied of
              Inl e \<Rightarrow> Inl e
            | Inr s1 \<Rightarrow>
                Inr (True,
                     s1\<lparr>fDetectorConfiguration :=
                          UpdateCurrentQnVector (fCorrectedQnVector s1) (fDetectorConfiguration s1)\<rparr>)))"

definition ClearCorrectionStep ::
  "QnCorrectionsQnVectorRecentering \<Rightarrow> QnCorrectionsQnVectorRecentering" where
  "ClearCorrectionStep s = s\<lparr>fCorrectedQnVector := Reset (fCorrectedQnVector s)\<rparr>"

text \<open>
  A step that is still in \<open>CALIBRATION\<close> has never written its output vector: the
  constructor and \<open>Reset\<close> leave it bad quality, and \<open>ProcessCorrections\<close> returns
  before touching it.
\<close>

definition outputBadWhileCalibrating :: "QnCorrectionsQnVectorRecentering \<Rightarrow> bool" where
  "outputBadWhileCalibrating s \<longleftrightarrow>
     (fState s = QCORRSTEP_calibration \<longrightarrow> \<not> IsGoodQuality (fCorrectedQnVector s))"

text \<open>The comparison \<open>Set\<close> makes before copying.\<close>

definition sameHarmonicStructure :: "'a QnVector_scheme \<Rightarrow> 'b QnVector_scheme \<Rightarrow> bool" where
  "sameHarmonicStructure v Qn \<longleftrightarrow>
     fHighestHarmonic v = fHighestHarmonic Qn \<and> fHarmonicMask v = fHarmonicMask Qn"

subsection \<open>QnCorrectionsInputGainEqualization.cxx\<close>

datatype QnGainEqualizationMethod =
  QEQUAL_noEqualization | QEQUAL_averageEqualization | QEQUAL_widthEqualization

text \<open>
  \<open>fHardCodedWeights\<close> is \<open>None\<close> for the \<open>NULL\<close> pointer, otherwise the array as a
  function of the channel id. The two histogram members carry the suffix \<open>Gain\<close>
  because the recentering step has members of the same names.
\<close>

record QnCorrectionsInputGainEqualization = QnCorrectionsCorrectionStepBase +
  fInputHistogramsGain :: QnCorrectionsProfileChannelizedIngress
  fCalibrationHistogramsGain :: QnCorrectionsProfileChannelized
  fEqualizationMethod :: QnGainEqualizationMethod
  fA :: Float_t
  fB :: Float_t
  fUseChannelGroupsWeights :: bool
  fHardCodedWeights :: "(Int_t \<Rightarrow> Float_t) option"

text \<open>The group weight both equalization branches compute for one data vector.\<close>

definition groupweight ::
  "variableContainer \<Rightarrow> QnCorrectionsInputGainEqualization \<Rightarrow> QnCorrectionsDataVectorChannelized
   \<Rightarrow> Float_t" where
  "groupweight variableContainer s dataVector =
     (if fUseChannelGroupsWeights s then
        ciGetGrpBinContent (fInputHistogramsGain s)
          (ciGetGrpBin (fInputHistogramsGain s) variableContainer (GetId dataVector))
      else
        (case fHardCodedWeights s of
           Some weights \<Rightarrow> weights (GetId dataVector)
         | None \<Rightarrow> 1))"

text \<open>The bodies of the three \<open>for (ixData ...)\<close> loops over the data bank.\<close>

definition noEqualization_body ::
  "QnCorrectionsDataVectorChannelized \<Rightarrow> QnCorrectionsDataVectorChannelized" where
  "noEqualization_body dataVector = SetEqualizedWeight (Weight dataVector) dataVector"

definition averageEqualization_body ::
  "variableContainer \<Rightarrow> QnCorrectionsInputGainEqualization \<Rightarrow> QnCorrectionsDataVectorChannelized
   \<Rightarrow> QnCorrectionsDataVectorChannelized" where
  "averageEqualization_body variableContainer s dataVector =
     (let average =
            ciGetBinContent (fInputHistogramsGain s)
              (ciGetBin (fInputHistogramsGain s) variableContainer (GetId dataVector));
          gw = groupweight variableContainer s dataVector
      in if fMinimumSignificantValue < average
         then SetEqualizedWeight ((Weight dataVector / average) * gw) dataVector
         else SetEqualizedWeight 0 dataVector)"

definition widthEqualization_body ::
  "variableContainer \<Rightarrow> QnCorrectionsInputGainEqualization \<Rightarrow> QnCorrectionsDataVectorChannelized
   \<Rightarrow> QnCorrectionsDataVectorChannelized" where
  "widthEqualization_body variableContainer s dataVector =
     (let average =
            ciGetBinContent (fInputHistogramsGain s)
              (ciGetBin (fInputHistogramsGain s) variableContainer (GetId dataVector));
          width =
            ciGetBinError (fInputHistogramsGain s)
              (ciGetBin (fInputHistogramsGain s) variableContainer (GetId dataVector));
          gw = groupweight variableContainer s dataVector
      in if fMinimumSignificantValue < average
         then SetEqualizedWeight ((fA s + fB s * (Weight dataVector - average) / width) * gw) dataVector
         else SetEqualizedWeight 0 dataVector)"

text \<open>The collecting loop: one \<open>Fill\<close> per data vector of the bank, in order.\<close>

fun collect :: "variableContainer \<Rightarrow> QnCorrectionsDataVectorChannelized list
    \<Rightarrow> QnCorrectionsProfileChannelized \<Rightarrow> QnCorrectionsProfileChannelized" where
  "collect variableContainer [] hist = hist"
| "collect variableContainer (dataVector # bank) hist =
     collect variableContainer bank
       (FillChannelized variableContainer (GetId dataVector) (Weight dataVector) hist)"

text \<open>The inner \<open>switch (fEqualizationMethod)\<close>: the data bank after equalization.\<close>

definition equalize ::
  "variableContainer \<Rightarrow> QnCorrectionsInputGainEqualization
   \<Rightarrow> QnCorrectionsDataVectorChannelized list" where
  "equalize variableContainer s =
     (case fEqualizationMethod s of
        QEQUAL_noEqualization \<Rightarrow>
          map noEqualization_body (GetInputDataBank (fDetectorConfiguration s))
      | QEQUAL_averageEqualization \<Rightarrow>
          map (averageEqualization_body variableContainer s) (GetInputDataBank (fDetectorConfiguration s))
      | QEQUAL_widthEqualization \<Rightarrow>
          map (widthEqualization_body variableContainer s) (GetInputDataBank (fDetectorConfiguration s)))"

definition Process ::
  "variableContainer \<Rightarrow> QnCorrectionsInputGainEqualization
   \<Rightarrow> bool \<times> QnCorrectionsInputGainEqualization" where
  "Process variableContainer s =
     (case fState s of
        QCORRSTEP_calibration \<Rightarrow>
          (False,
           s\<lparr>fCalibrationHistogramsGain :=
               collect variableContainer (GetInputDataBank (fDetectorConfiguration s))
                 (fCalibrationHistogramsGain s)\<rparr>)
      | QCORRSTEP_applyCollect \<Rightarrow>
          (let s1 = s\<lparr>fCalibrationHistogramsGain :=
                        collect variableContainer (GetInputDataBank (fDetectorConfiguration s))
                          (fCalibrationHistogramsGain s)\<rparr>
           in (True,
               s1\<lparr>fDetectorConfiguration :=
                    (fDetectorConfiguration s1)\<lparr>fDataVectorBank := equalize variableContainer s1\<rparr>\<rparr>))
      | QCORRSTEP_apply \<Rightarrow>
          (True,
           s\<lparr>fDetectorConfiguration :=
               (fDetectorConfiguration s)\<lparr>fDataVectorBank := equalize variableContainer s\<rparr>\<rparr>))"

section \<open>Concrete vectors and steps\<close>

text \<open>The inputs at which the theorems below are evaluated.\<close>

text \<open>A vector with harmonic 1 active and components (3, 4) there.\<close>

definition Qn_3_4 :: QnVector where
  "Qn_3_4 = \<lparr>fName = ''plain'', fTitle = ''plain'',
             fQnX = (\<lambda>_. 0)(1 := 3), fQnY = (\<lambda>_. 0)(1 := 4),
             fHighestHarmonic = 1, fHarmonicMask = 0x0002, fGoodQuality = True\<rparr>"

text \<open>Harmonics 1 and 2 active, components (3, 4) at harmonic 1 and (1, 2) at harmonic 2.\<close>

definition Qn_h1_h2 :: QnVector where
  "Qn_h1_h2 = \<lparr>fName = ''plain'', fTitle = ''plain'',
               fQnX = (\<lambda>_. 0)(1 := 3, 2 := 1), fQnY = (\<lambda>_. 0)(1 := 4, 2 := 2),
               fHighestHarmonic = 2, fHarmonicMask = 0x0006, fGoodQuality = True\<rparr>"

text \<open>Only harmonic 2 active, components (7, 8) there, bad quality.\<close>

definition Qn_h2 :: QnVector where
  "Qn_h2 = \<lparr>fName = ''rec'', fTitle = ''rec'',
            fQnX = (\<lambda>_. 0)(2 := 7), fQnY = (\<lambda>_. 0)(2 := 8),
            fHighestHarmonic = 2, fHarmonicMask = 0x0004, fGoodQuality = False\<rparr>"

text \<open>A build vector: harmonic 1 active, components (4, 2), sum of weights 4, 3 entries.\<close>

definition QnBuild_4_2 :: QnVectorBuild where
  "QnBuild_4_2 = \<lparr>fName = ''build'', fTitle = ''build'',
                  fQnX = (\<lambda>_. 0)(1 := 4), fQnY = (\<lambda>_. 0)(1 := 2),
                  fHighestHarmonic = 1, fHarmonicMask = 0x0002, fGoodQuality = True,
                  fSumW = 4, fN = 3\<rparr>"

text \<open>
  The recentering example of the spec: current Q = (5, 5) at harmonic 1, calibration
  mean (2, 2) with 10 entries in the bin, spread (4, 4), a fresh output vector and an
  empty not-validated histogram.
\<close>

definition Qn_5_5 :: QnVector where
  "Qn_5_5 = \<lparr>fName = ''plain'', fTitle = ''plain'',
             fQnX = (\<lambda>_. 0)(1 := 5), fQnY = (\<lambda>_. 0)(1 := 5),
             fHighestHarmonic = 1, fHarmonicMask = 0x0002, fGoodQuality = True\<rparr>"

definition Qn_rec :: QnVector where
  "Qn_rec = \<lparr>fName = ''rec'', fTitle = ''rec'',
             fQnX = (\<lambda>_. 0), fQnY = (\<lambda>_. 0),
             fHighestHarmonic = 1, fHarmonicMask = 0x0002, fGoodQuality = False\<rparr>"

definition profile_mean_2_2 :: QnCorrectionsProfileComponents where
  "profile_mean_2_2 =
     \<lparr>pcGetBin = (\<lambda>_. 0), pcNoOfEntriesThreshold = fDefaultMinNoOfEntries,
      pcEntries = (\<lambda>_. 10),
      pcXBinContent = (\<lambda>_ _. 2), pcYBinContent = (\<lambda>_ _. 2),
      pcXBinError = (\<lambda>_ _. 4), pcYBinError = (\<lambda>_ _. 4)\<rparr>"

definition nve_histogram :: QnCorrectionsHistogramSparse where
  "nve_histogram = \<lparr>hsGetBin = (\<lambda>_. 0), hsBinContent = (\<lambda>_. 0)\<rparr>"

definition recentering_step :: QnCorrectionsQnVectorRecentering where
  "recentering_step =
     \<lparr>fState = QCORRSTEP_apply,
      fDetectorConfiguration = \<lparr>fCurrentQnVector = Qn_5_5, fDataVectorBank = []\<rparr>,
      fCorrectedQnVector = Qn_rec,
      fInputHistograms = profile_mean_2_2,
      fQANotValidatedBin = Some nve_histogram,
      fApplyWidthEqualization = False,
      fMinNoOfEntriesToValidate = fDefaultMinNoOfEntries\<rparr>"

text \<open>
  The gain equalization example of the spec: channel 0 has average 4, channel 1 has
  average 1e-7; raw weights 2; no group weights, no hard-coded weights.
\<close>

definition ingress_avg_4 :: QnCorrectionsProfileChannelizedIngress where
  "ingress_avg_4 =
     \<lparr>ciGetBin = (\<lambda>_ nChannel. nChannel),
      ciGetBinContent = (\<lambda>bin. if bin = 0 then 4 else 1 / 10000000),
      ciGetBinError = (\<lambda>_. 1),
      ciGetGrpBin = (\<lambda>_ nChannel. nChannel),
      ciGetGrpBinContent = (\<lambda>_. 1)\<rparr>"

definition gain_step :: QnCorrectionsInputGainEqualization where
  "gain_step =
     \<lparr>fState = QCORRSTEP_apply,
      fDetectorConfiguration =
        \<lparr>fCurrentQnVector = Qn_5_5,
         fDataVectorBank =
           [\<lparr>fPhi = 0, fId = 0, fWeight = 2, fEqualizedWeight = 2\<rparr>,
            \<lparr>fPhi = 1, fId = 1, fWeight = 2, fEqualizedWeight = 2\<rparr>]\<rparr>,
      fInputHistogramsGain = ingress_avg_4,
      fCalibrationHistogramsGain = [],
      fEqualizationMethod = QEQUAL_averageEqualization,
      fA = 0, fB = 1,
      fUseChannelGroupsWeights = False,
      fHardCodedWeights = None\<rparr>"

section \<open>The for loop and the harmonic mask\<close>

text \<open>
  A loop whose body at index \<open>k\<close> rewrites only entry \<open>k\<close> of an array \<open>P\<close>, from that
  entry and from a part \<open>C\<close> of the state that no iteration changes, rewrites exactly
  the entries of its range.
\<close>

lemma for_loop_pointwise:
  fixes P :: "'s \<Rightarrow> int \<Rightarrow> 'p" and C :: "'s \<Rightarrow> 'c"
  assumes C: "\<And>k s. C (body k s) = C s"
      and P: "\<And>k s. P (body k s) = (P s)(k := g (C s) k (P s k))"
  shows "C (for_loop h n body s) = C s \<and>
         P (for_loop h n body s) = (\<lambda>k. if h \<le> k \<and> k < n then g (C s) k (P s k) else P s k)"
  using assms
proof (induction h n body s rule: for_loop.induct)
  case (1 h n body s)
  show ?case
  proof (cases "h < n")
    case False
    then show ?thesis by (auto simp: for_loop.simps [of h n] fun_eq_iff)
  next
    case True
    have step: "for_loop h n body s = for_loop (h + 1) n body (body h s)"
      using True by (simp add: for_loop.simps [of h n])
    have IH: "C (for_loop (h + 1) n body (body h s)) = C (body h s) \<and>
          P (for_loop (h + 1) n body (body h s)) =
            (\<lambda>k. if h + 1 \<le> k \<and> k < n then g (C (body h s)) k (P (body h s) k) else P (body h s) k)"
      using "1.IH" [OF True "1.prems"] .
    show ?thesis
      unfolding step using IH True
      by (auto simp: "1.prems" fun_eq_iff)
  qed
qed

lemma for_loop_unchanged:
  assumes "\<And>k s. C (body k s) = C s"
  shows "C (for_loop h n body s) = C s"
  using assms
proof (induction h n body s rule: for_loop.induct)
  case (1 h n body s)
  then show ?case
    by (cases "h < n") (simp_all add: for_loop.simps [of h n])
qed

lemma for_loop_skip:
  assumes "\<And>k. body k s = s"
  shows "for_loop h n body s = s"
  using assms
proof (induction h n body s rule: for_loop.induct)
  case (1 h n body s)
  then show ?case
    by (cases "h < n") (simp_all add: for_loop.simps [of h n])
qed

lemma for_loop_1_2: "for_loop 1 2 body s = body 1 s"
  by (simp add: for_loop.simps [of 1 2] for_loop.simps [of 2 2])

lemma harmonicNumberMask_1: "harmonicNumberMask 1 = 0x0002"
  by (simp add: harmonicNumberMask_def harmonicNumberMask_table_def)

lemma word_or_and_absorb: "((m :: 32 word) OR x) AND x = x"
  by (simp add: bit_eq_iff bit_and_iff bit_or_iff)

text \<open>
  QnCorrectionsQnVectors.cxx: the unparenthesised test only looks at bit 0 of the mask,
  which no entry of the mask table sets.
\<close>

lemma harmonicBitSet_QnVectors_bit0:
  "harmonicBitSet_QnVectors v h \<longleftrightarrow> (fHarmonicMask v AND 1) \<noteq> 0"
  by (simp add: harmonicBitSet_QnVectors_def)

text \<open>
  \<open>GetHarmonicsMap\<close> stores exactly the active harmonics, so \<open>activeHarmonic\<close> is
  membership in the harmonic map the source reports.
\<close>

lemma for_loop_append:
  assumes "body = (\<lambda>k acc. if p k then acc @ [k] else acc)"
  shows "for_loop h n body acc = acc @ filter p [h..n - 1]"
  using assms
proof (induction h n body acc rule: for_loop.induct)
  case (1 h n body acc)
  show ?case
  proof (cases "h < n")
    case False
    then show ?thesis by (simp add: for_loop.simps [of h n])
  next
    case True
    then have up: "[h..n - 1] = h # [h + 1..n - 1]"
      by (simp add: upto_rec1)
    have "for_loop h n body acc = for_loop (h + 1) n body (body h acc)"
      using True by (simp add: for_loop.simps [of h n])
    also have "\<dots> = body h acc @ filter p [h + 1..n - 1]"
      using "1.IH" [OF True "1.prems"] .
    finally show ?thesis
      by (simp add: up "1.prems")
  qed
qed

lemma GetHarmonicsMap_filter:
  "GetHarmonicsMap v = filter (harmonicBitSet v) [1..fHighestHarmonic v]"
  by (simp add: GetHarmonicsMap_def for_loop_append [OF refl])

lemma GetHarmonicsMap_active: "set (GetHarmonicsMap v) = {h. activeHarmonic v h}"
  by (auto simp: GetHarmonicsMap_filter activeHarmonic_def)

lemma active_QnBuild_4_2: "activeHarmonic QnBuild_4_2 1"
  by (simp add: activeHarmonic_def harmonicBitSet_def harmonicNumberMask_1 QnBuild_4_2_def)

section \<open>ActivateHarmonic\<close>

text \<open>
  The QnCorrectionsQnVector.cxx version: fatal above the maximum, nothing to do for an
  active harmonic, and otherwise the bit is set and both components are zeroed.
\<close>

lemma ActivateHarmonic_fatal:
  "MAXHARMONICNUMBERSUPPORTED < h \<Longrightarrow> ActivateHarmonic h v = Inl Fatal"
  by (simp add: ActivateHarmonic_def)

lemma ActivateHarmonic_active_noop:
  "h \<le> MAXHARMONICNUMBERSUPPORTED \<Longrightarrow> activeHarmonic v h \<Longrightarrow> ActivateHarmonic h v = Inr v"
  by (simp add: ActivateHarmonic_def activeHarmonic_def)

lemma ActivateHarmonic_activates:
  assumes "h \<le> MAXHARMONICNUMBERSUPPORTED" and "\<not> activeHarmonic v h" and "1 \<le> h"
  shows "\<exists>v'. ActivateHarmonic h v = Inr v' \<and> activeHarmonic v' h \<and>
           fHarmonicMask v' = (fHarmonicMask v OR harmonicNumberMask h) \<and>
           fQnX v' = (fQnX v)(h := 0) \<and> fQnY v' = (fQnY v)(h := 0)"
  using assms
  by (auto simp: ActivateHarmonic_def activeHarmonic_def harmonicBitSet_def word_or_and_absorb)

text \<open>
  Claim C6, evaluated on QnCorrectionsQnVectors.cxx. Harmonic 1 of \<open>Qn_h1_h2\<close> is active
  with components (3, 4). \<open>ActivateHarmonic(1)\<close> of that file takes the "activate it"
  branch all the same (its "already active" test reads bit 0 of the mask) and zeroes
  both components: the call is not the no-op the claim states.
\<close>

theorem ActivateHarmonic_QnVectors_zeroes_active:
  "activeHarmonic Qn_h1_h2 1 \<and> fQnX Qn_h1_h2 1 = 3 \<and> fQnY Qn_h1_h2 1 = 4 \<and>
   ActivateHarmonic_QnVectors 1 Qn_h1_h2 =
     Inr (Qn_h1_h2\<lparr>fQnX := (fQnX Qn_h1_h2)(1 := 0), fQnY := (fQnY Qn_h1_h2)(1 := 0)\<rparr>) \<and>
   ActivateHarmonic_QnVectors 1 Qn_h1_h2 \<noteq> Inr Qn_h1_h2"
  apply (simp add: ActivateHarmonic_QnVectors_def Qn_h1_h2_def activeHarmonic_def harmonicBitSet_def
      harmonicBitSet_QnVectors_def harmonicNumberMask_1 nMaxHarmonicNumberSupported_def fun_eq_iff)
  done

section \<open>Set\<close>

text \<open>
  Claim C8 as stated fails on QnCorrectionsQnVectors.cxx: \<open>Qn_3_4\<close> (harmonic 1) and
  \<open>Qn_h2\<close> (harmonic 2) have different harmonic structures, and \<open>Set\<close> of that file
  returns normally, the receiver taking over the other vector's structure.
\<close>

theorem Set_QnVectors_no_check:
  "\<not> sameHarmonicStructure Qn_3_4 Qn_h2 \<and>
   Set_QnVectors Qn_h2 Qn_3_4 =
     Inr (Qn_3_4\<lparr>fQnX := fQnX Qn_h2, fQnY := fQnY Qn_h2,
                    fHighestHarmonic := 2, fHarmonicMask := 0x0004\<rparr>) \<and>
   Set_QnVectors Qn_h2 Qn_3_4 \<noteq> Inl Fatal"
  by (simp add: Set_QnVectors_def sameHarmonicStructure_def Qn_3_4_def Qn_h2_def)

text \<open>
  Claim C8, amended. \<open>Set\<close> of QnCorrectionsQnVector.cxx fails fatally whenever
  \<open>fHighestHarmonic\<close> or \<open>fHarmonicMask\<close> differ, and when they match it copies both
  component arrays and the quality flag and keeps the receiver's structure. \<open>Set\<close> of
  QnCorrectionsQnVectors.cxx never fails: it copies the components together with the
  harmonic structure (that class has no quality flag).
\<close>

theorem Set_structure_check:
  "(\<not> sameHarmonicStructure v Qn \<longrightarrow> Set Qn changename v = Inl Fatal) \<and>
   (sameHarmonicStructure v Qn \<longrightarrow>
      (\<exists>v'. Set Qn changename v = Inr v' \<and> fQnX v' = fQnX Qn \<and> fQnY v' = fQnY Qn \<and>
            fGoodQuality v' = fGoodQuality Qn \<and>
            fHighestHarmonic v' = fHighestHarmonic v \<and> fHarmonicMask v' = fHarmonicMask v)) \<and>
   (\<exists>v'. Set_QnVectors Qn v = Inr v' \<and> fQnX v' = fQnX Qn \<and> fQnY v' = fQnY Qn \<and>
         fHighestHarmonic v' = fHighestHarmonic Qn \<and> fHarmonicMask v' = fHarmonicMask Qn \<and>
         fGoodQuality v' = fGoodQuality v)"
  by (auto simp: Set_def Set_QnVectors_def sameHarmonicStructure_def Let_def)

theorem Set_structure_check_witness:
  "Set Qn_h2 False Qn_3_4 = Inl Fatal \<and>
   (\<exists>v'. Set Qn_3_4 False (Reset Qn_3_4) = Inr v' \<and> fQnX v' 1 = 3 \<and> fQnY v' 1 = 4 \<and>
         fGoodQuality v') \<and>
   (\<exists>v'. Set_QnVectors Qn_h2 Qn_3_4 = Inr v' \<and> fHighestHarmonic v' = 2 \<and> fQnX v' 2 = 7)"
proof -
  have differ: "\<not> sameHarmonicStructure Qn_3_4 Qn_h2"
    by (simp add: sameHarmonicStructure_def Qn_3_4_def Qn_h2_def)
  have same: "sameHarmonicStructure (Reset Qn_3_4) Qn_3_4"
    by (simp add: sameHarmonicStructure_def Reset_def)
  show ?thesis
    using Set_structure_check [of Qn_3_4 Qn_h2 False] Set_structure_check [of "Reset Qn_3_4" Qn_3_4 False]
      differ same
    by (auto simp: Qn_3_4_def Qn_h2_def)
qed

section \<open>Normalize\<close>

text \<open>
  What \<open>Normalize\<close> of QnCorrectionsQnVector.cxx stores at an active harmonic: the x
  component divided by the length, and then the y component divided by the length
  of the vector whose x component has already been overwritten.
\<close>

lemma Normalize_loop_components:
  "(\<lambda>k. (fQnX (for_loop h n Normalize_body v) k, fQnY (for_loop h n Normalize_body v) k)) =
     (\<lambda>k. if h \<le> k \<and> k < n \<and> harmonicBitSet v k
          then (fQnX v k / sqrt (fQnX v k * fQnX v k + fQnY v k * fQnY v k),
                fQnY v k /
                  sqrt (fQnX v k / sqrt (fQnX v k * fQnX v k + fQnY v k * fQnY v k) *
                        (fQnX v k / sqrt (fQnX v k * fQnX v k + fQnY v k * fQnY v k)) +
                        fQnY v k * fQnY v k))
          else (fQnX v k, fQnY v k))"
proof -
  let ?P = "\<lambda>(v :: 'a QnVector_scheme) k. (fQnX v k, fQnY v k)"
  let ?g = "\<lambda>c k p. if (c AND harmonicNumberMask k) = harmonicNumberMask k
               then (fst p / sqrt (fst p * fst p + snd p * snd p),
                     snd p / sqrt (fst p / sqrt (fst p * fst p + snd p * snd p) *
                                   (fst p / sqrt (fst p * fst p + snd p * snd p)) + snd p * snd p))
               else p"
  have "fHarmonicMask (for_loop h n Normalize_body v) = fHarmonicMask v \<and>
        ?P (for_loop h n Normalize_body v) =
          (\<lambda>k. if h \<le> k \<and> k < n then ?g (fHarmonicMask v) k (?P v k) else ?P v k)"
    by (rule for_loop_pointwise)
       (auto simp: Normalize_body_def Let_def harmonicBitSet_def fun_eq_iff QxNorm_def QyNorm_def
          Length_def Qx_def Qy_def)
  then show ?thesis
    by (auto simp: harmonicBitSet_def fun_eq_iff)
qed

lemma Normalize_components:
  "fQnX (Normalize v) h =
     (if activeHarmonic v h then fQnX v h / sqrt (fQnX v h * fQnX v h + fQnY v h * fQnY v h)
      else fQnX v h)"
  "fQnY (Normalize v) h =
     (if activeHarmonic v h
      then fQnY v h /
             sqrt (fQnX v h / sqrt (fQnX v h * fQnX v h + fQnY v h * fQnY v h) *
                   (fQnX v h / sqrt (fQnX v h * fQnX v h + fQnY v h * fQnY v h)) +
                   fQnY v h * fQnY v h)
      else fQnY v h)"
  using fun_cong [OF Normalize_loop_components [of 1 "fHighestHarmonic v + 1" v], of h]
  by (auto simp: Normalize_def activeHarmonic_def)

lemma sqrt_409_25: "sqrt (409 / 25) \<noteq> 5"
proof
  assume "sqrt (409 / 25) = 5"
  then have "(sqrt (409 / 25))\<^sup>2 = 5\<^sup>2" by simp
  then show False by simp
qed

text \<open>
  Claim C7, evaluated at the claim's own example: components (3, 4) at the active
  harmonic 1. \<open>Normalize\<close> of QnCorrectionsQnVector.cxx stores x = 3/5 and then
  y = 4 / sqrt (0.6 * 0.6 + 16), which is not the 4/5 of the claim; \<open>Normalize\<close> of
  QnCorrectionsQnVectors.cxx changes nothing (its mask test fails for every harmonic).
\<close>

theorem Normalize_3_4:
  "activeHarmonic Qn_3_4 1 \<and> fQnX Qn_3_4 1 = 3 \<and> fQnY Qn_3_4 1 = 4 \<and>
   fQnX (Normalize Qn_3_4) 1 = 3 / 5 \<and>
   fQnY (Normalize Qn_3_4) 1 = 4 / sqrt (409 / 25) \<and>
   fQnY (Normalize Qn_3_4) 1 \<noteq> 4 / 5 \<and>
   Normalize_QnVectors Qn_3_4 = Qn_3_4"
proof -
  have x: "fQnX (Normalize Qn_3_4) 1 = 3 / 5"
    by (simp add: Normalize_def Qn_3_4_def for_loop_1_2 Normalize_body_def harmonicBitSet_def
        harmonicNumberMask_1 QxNorm_def QyNorm_def Length_def Qx_def Qy_def Let_def)
  have y: "fQnY (Normalize Qn_3_4) 1 = 4 / sqrt (409 / 25)"
    by (simp add: Normalize_def Qn_3_4_def for_loop_1_2 Normalize_body_def harmonicBitSet_def
        harmonicNumberMask_1 QxNorm_def QyNorm_def Length_def Qx_def Qy_def Let_def)
  have ne: "(4::real) / sqrt (409 / 25) \<noteq> 4 / 5"
    using sqrt_409_25 by (simp add: field_simps)
  have old: "Normalize_QnVectors Qn_3_4 = Qn_3_4"
    by (simp add: Normalize_QnVectors_def Qn_3_4_def for_loop_1_2 Normalize_QnVectors_body_def
        harmonicBitSet_QnVectors_def)
  have act: "activeHarmonic Qn_3_4 1"
    by (simp add: activeHarmonic_def harmonicBitSet_def harmonicNumberMask_1 Qn_3_4_def)
  show ?thesis
    using x y ne old act by (simp add: Qn_3_4_def)
qed

section \<open>NormalizeQoverM\<close>

text \<open>
  The QnCorrectionsQnVector.cxx version: nothing below the threshold, one division of
  every active harmonic's components at or above it.
\<close>

lemma NormalizeQoverM_below:
  "fSumW v < fMinimumSignificantValue \<Longrightarrow> NormalizeQoverM v = v"
  by (simp add: NormalizeQoverM_def)

lemma NormalizeQoverM_loop_fQnX:
  "fQnX (for_loop h n NormalizeQoverM_body v) =
     (\<lambda>k. if h \<le> k \<and> k < n \<and> harmonicBitSet v k then fQnX v k / fSumW v else fQnX v k)"
proof -
  let ?C = "\<lambda>v :: QnVectorBuild. (fHarmonicMask v, fSumW v)"
  let ?g = "\<lambda>c k x. if (fst c AND harmonicNumberMask k) = harmonicNumberMask k then x / snd c else x"
  have "?C (for_loop h n NormalizeQoverM_body v) = ?C v \<and>
        fQnX (for_loop h n NormalizeQoverM_body v) =
          (\<lambda>k. if h \<le> k \<and> k < n then ?g (?C v) k (fQnX v k) else fQnX v k)"
    by (rule for_loop_pointwise)
       (auto simp: NormalizeQoverM_body_def Let_def harmonicBitSet_def fun_eq_iff)
  then show ?thesis
    by (auto simp: harmonicBitSet_def fun_eq_iff)
qed

lemma NormalizeQoverM_loop_fQnY:
  "fQnY (for_loop h n NormalizeQoverM_body v) =
     (\<lambda>k. if h \<le> k \<and> k < n \<and> harmonicBitSet v k then fQnY v k / fSumW v else fQnY v k)"
proof -
  let ?C = "\<lambda>v :: QnVectorBuild. (fHarmonicMask v, fSumW v)"
  let ?g = "\<lambda>c k x. if (fst c AND harmonicNumberMask k) = harmonicNumberMask k then x / snd c else x"
  have "?C (for_loop h n NormalizeQoverM_body v) = ?C v \<and>
        fQnY (for_loop h n NormalizeQoverM_body v) =
          (\<lambda>k. if h \<le> k \<and> k < n then ?g (?C v) k (fQnY v k) else fQnY v k)"
    by (rule for_loop_pointwise)
       (auto simp: NormalizeQoverM_body_def Let_def harmonicBitSet_def fun_eq_iff)
  then show ?thesis
    by (auto simp: harmonicBitSet_def fun_eq_iff)
qed

lemma NormalizeQoverM_loop_rest:
  "(fName v', fTitle v', fHighestHarmonic v', fHarmonicMask v', fGoodQuality v', fSumW v', fN v') =
   (fName v, fTitle v, fHighestHarmonic v, fHarmonicMask v, fGoodQuality v, fSumW v, fN v)"
  if "v' = for_loop h n NormalizeQoverM_body v"
  unfolding that
  by (rule for_loop_unchanged) (simp add: NormalizeQoverM_body_def Let_def)

lemma NormalizeQoverM_divides:
  assumes "\<not> fSumW v < fMinimumSignificantValue"
  shows "fQnX (NormalizeQoverM v) h = (if activeHarmonic v h then fQnX v h / fSumW v else fQnX v h)"
    and "fQnY (NormalizeQoverM v) h = (if activeHarmonic v h then fQnY v h / fSumW v else fQnY v h)"
    and "fSumW (NormalizeQoverM v) = fSumW v"
    and "fHarmonicMask (NormalizeQoverM v) = fHarmonicMask v"
    and "fHighestHarmonic (NormalizeQoverM v) = fHighestHarmonic v"
  using assms NormalizeQoverM_loop_rest [OF refl, of 1 "fHighestHarmonic v + 1" v]
  by (auto simp: NormalizeQoverM_def NormalizeQoverM_loop_fQnX NormalizeQoverM_loop_fQnY
      activeHarmonic_def)

lemma NormalizeQoverM_twice:
  "fQnX (NormalizeQoverM QnBuild_4_2) 1 = 1 \<and>
   fQnX (NormalizeQoverM (NormalizeQoverM QnBuild_4_2)) 1 = 1 / 4"
proof -
  have big: "\<not> fSumW QnBuild_4_2 < fMinimumSignificantValue"
    by (simp add: QnBuild_4_2_def fMinimumSignificantValue_def)
  have one: "fQnX (NormalizeQoverM QnBuild_4_2) 1 = 1"
    using active_QnBuild_4_2 by (simp add: NormalizeQoverM_divides(1) [OF big]) (simp add: QnBuild_4_2_def)
  have w: "fSumW (NormalizeQoverM QnBuild_4_2) = 4"
    by (simp add: NormalizeQoverM_divides(3) [OF big]) (simp add: QnBuild_4_2_def)
  have big': "\<not> fSumW (NormalizeQoverM QnBuild_4_2) < fMinimumSignificantValue"
    by (simp add: w fMinimumSignificantValue_def)
  have act: "activeHarmonic (NormalizeQoverM QnBuild_4_2) 1"
    using active_QnBuild_4_2
    by (simp add: activeHarmonic_def harmonicBitSet_def NormalizeQoverM_divides(4,5) [OF big])
  show ?thesis
    using act by (simp add: one NormalizeQoverM_divides(1) [OF big'] w)
qed

text \<open>
  QnCorrectionsQnVectors.cxx: whatever the sum of weights, a vector built by the
  constructor (bit 0 of the mask clear) comes back unchanged.
\<close>

lemma NormalizeQoverM_QnVectors_noop:
  assumes "(fHarmonicMask v AND 1) = 0"
  shows "NormalizeQoverM_QnVectors v = v"
  using assms
  by (simp add: NormalizeQoverM_QnVectors_def NormalizeQoverM_QnVectors_body_def
      harmonicBitSet_QnVectors_bit0 for_loop_skip)

text \<open>
  Claim C1, evaluated on QnCorrectionsQnVectors.cxx. \<open>QnBuild_4_2\<close> has sum of weights
  4, above the threshold, and components (4, 2) at the active harmonic 1. The claim
  asks for (4/4, 2/4) = (1, 1/2); \<open>NormalizeQoverM\<close> of that file runs its loop only
  below the threshold and returns the vector unchanged.
\<close>

theorem NormalizeQoverM_QnVectors_skips_division:
  "\<not> fSumW QnBuild_4_2 < fMinimumSignificantValue \<and> activeHarmonic QnBuild_4_2 1 \<and>
   NormalizeQoverM_QnVectors QnBuild_4_2 = QnBuild_4_2 \<and>
   fQnX (NormalizeQoverM_QnVectors QnBuild_4_2) 1 = 4 \<and>
   fQnX QnBuild_4_2 1 / fSumW QnBuild_4_2 = 1 \<and>
   fQnY (NormalizeQoverM_QnVectors QnBuild_4_2) 1 = 2 \<and>
   fQnY QnBuild_4_2 1 / fSumW QnBuild_4_2 = 1 / 2"
  by (simp add: NormalizeQoverM_QnVectors_def QnBuild_4_2_def fMinimumSignificantValue_def
      activeHarmonic_def harmonicBitSet_def harmonicNumberMask_1)


section \<open>NormalizeQoverSquareRootOfM\<close>

text \<open>
  The QnCorrectionsQnVector.cxx version: nothing below the threshold; at or above it
  the assignment is \<open>+=\<close>, so the quotient is added to the component.
\<close>

lemma NormalizeQoverSquareRootOfM_loop_fQnX:
  "fQnX (for_loop h n NormalizeQoverSquareRootOfM_body v) =
     (\<lambda>k. if h \<le> k \<and> k < n \<and> harmonicBitSet v k
          then fQnX v k + fQnX v k / sqrt (fSumW v) else fQnX v k)"
proof -
  let ?C = "\<lambda>v :: QnVectorBuild. (fHarmonicMask v, fSumW v)"
  let ?g = "\<lambda>c k x. if (fst c AND harmonicNumberMask k) = harmonicNumberMask k
                   then x + x / sqrt (snd c) else x"
  have "?C (for_loop h n NormalizeQoverSquareRootOfM_body v) = ?C v \<and>
        fQnX (for_loop h n NormalizeQoverSquareRootOfM_body v) =
          (\<lambda>k. if h \<le> k \<and> k < n then ?g (?C v) k (fQnX v k) else fQnX v k)"
    by (rule for_loop_pointwise)
       (auto simp: NormalizeQoverSquareRootOfM_body_def Let_def harmonicBitSet_def fun_eq_iff)
  then show ?thesis
    by (auto simp: harmonicBitSet_def fun_eq_iff)
qed

lemma NormalizeQoverSquareRootOfM_loop_fQnY:
  "fQnY (for_loop h n NormalizeQoverSquareRootOfM_body v) =
     (\<lambda>k. if h \<le> k \<and> k < n \<and> harmonicBitSet v k
          then fQnY v k + fQnY v k / sqrt (fSumW v) else fQnY v k)"
proof -
  let ?C = "\<lambda>v :: QnVectorBuild. (fHarmonicMask v, fSumW v)"
  let ?g = "\<lambda>c k x. if (fst c AND harmonicNumberMask k) = harmonicNumberMask k
                   then x + x / sqrt (snd c) else x"
  have "?C (for_loop h n NormalizeQoverSquareRootOfM_body v) = ?C v \<and>
        fQnY (for_loop h n NormalizeQoverSquareRootOfM_body v) =
          (\<lambda>k. if h \<le> k \<and> k < n then ?g (?C v) k (fQnY v k) else fQnY v k)"
    by (rule for_loop_pointwise)
       (auto simp: NormalizeQoverSquareRootOfM_body_def Let_def harmonicBitSet_def fun_eq_iff)
  then show ?thesis
    by (auto simp: harmonicBitSet_def fun_eq_iff)
qed

lemma NormalizeQoverSquareRootOfM_plus_quotient:
  assumes "\<not> fSumW v < fMinimumSignificantValue"
  shows "fQnX (NormalizeQoverSquareRootOfM v) h =
           (if activeHarmonic v h then fQnX v h + fQnX v h / sqrt (fSumW v) else fQnX v h)"
    and "fQnY (NormalizeQoverSquareRootOfM v) h =
           (if activeHarmonic v h then fQnY v h + fQnY v h / sqrt (fSumW v) else fQnY v h)"
  using assms
  by (auto simp: NormalizeQoverSquareRootOfM_def NormalizeQoverSquareRootOfM_loop_fQnX
      NormalizeQoverSquareRootOfM_loop_fQnY activeHarmonic_def)

lemma NormalizeQoverSquareRootOfM_below:
  "fSumW v < fMinimumSignificantValue \<Longrightarrow> NormalizeQoverSquareRootOfM v = v"
  by (simp add: NormalizeQoverSquareRootOfM_def)

text \<open>
  Claim C9, evaluated at \<open>QnBuild_4_2\<close>: sum of weights 4, components (4, 2) at the
  active harmonic 1. The claim asks for (4, 2) / sqrt 4 = (2, 1).
  \<open>NormalizeQoverSquareRootOfM\<close> of QnCorrectionsQnVector.cxx stores
  (4 + 2, 2 + 1) = (6, 3); the one of QnCorrectionsQnVectors.cxx leaves (4, 2).
\<close>

theorem NormalizeQoverSquareRootOfM_adds:
  "\<not> fSumW QnBuild_4_2 < fMinimumSignificantValue \<and> activeHarmonic QnBuild_4_2 1 \<and>
   fQnX QnBuild_4_2 1 / sqrt (fSumW QnBuild_4_2) = 2 \<and>
   fQnY QnBuild_4_2 1 / sqrt (fSumW QnBuild_4_2) = 1 \<and>
   fQnX (NormalizeQoverSquareRootOfM QnBuild_4_2) 1 = 6 \<and>
   fQnY (NormalizeQoverSquareRootOfM QnBuild_4_2) 1 = 3 \<and>
   fQnX (NormalizeQoverSquareRootOfM_QnVectors QnBuild_4_2) 1 = 4 \<and>
   fQnY (NormalizeQoverSquareRootOfM_QnVectors QnBuild_4_2) 1 = 2"
proof -
  have s4: "sqrt 4 = 2"
    using real_sqrt_abs [of 2] by simp
  show ?thesis
    using active_QnBuild_4_2
    by (simp add: NormalizeQoverSquareRootOfM_def NormalizeQoverSquareRootOfM_QnVectors_def
        NormalizeQoverSquareRootOfM_body_def QnBuild_4_2_def fMinimumSignificantValue_def
        for_loop_1_2 harmonicBitSet_def harmonicNumberMask_1 Let_def s4)
qed

section \<open>Recentering: ProcessCorrections\<close>

text \<open>The harmonics the scan passes over have their bit clear.\<close>

lemma harmonic_scan_skips:
  "- 1 \<le> h \<Longrightarrow> h \<le> k \<Longrightarrow> k < harmonic_scan v h \<Longrightarrow> \<not> harmonicBitSet v k"
proof (induction v h rule: harmonic_scan.induct)
  case (1 v h)
  show ?case
  proof (cases "h < fHighestHarmonic v + 1")
    case False
    then have "harmonic_scan v h = -1" by (simp add: harmonic_scan.simps [of v h])
    with "1.prems" show ?thesis by simp
  next
    case True
    show ?thesis
    proof (cases "harmonicBitSet v h")
      case True
      with \<open>h < fHighestHarmonic v + 1\<close> have "harmonic_scan v h = h"
        by (simp add: harmonic_scan.simps [of v h])
      with "1.prems" show ?thesis by simp
    next
      case False
      with True have eq: "harmonic_scan v h = harmonic_scan v (h + 1)"
        by (simp add: harmonic_scan.simps [of v h])
      show ?thesis
      proof (cases "k = h")
        case True
        with False show ?thesis by simp
      next
        case False
        with "1.prems" eq have "- 1 \<le> h + 1" "h + 1 \<le> k" "k < harmonic_scan v (h + 1)" by simp_all
        with "1.IH" [OF True \<open>\<not> harmonicBitSet v h\<close>] show ?thesis by blast
      qed
    qed
  qed
qed

lemma harmonic_scan_exhausted:
  "0 \<le> h \<Longrightarrow> harmonic_scan v h = -1 \<Longrightarrow> h \<le> k \<Longrightarrow> k \<le> fHighestHarmonic v \<Longrightarrow> \<not> harmonicBitSet v k"
proof (induction v h rule: harmonic_scan.induct)
  case (1 v h)
  from "1.prems" have lt: "h < fHighestHarmonic v + 1" by simp
  show ?case
  proof (cases "harmonicBitSet v h")
    case True
    with lt have "harmonic_scan v h = h" by (simp add: harmonic_scan.simps [of v h])
    with "1.prems" show ?thesis by simp
  next
    case False
    with lt have eq: "harmonic_scan v h = harmonic_scan v (h + 1)"
      by (simp add: harmonic_scan.simps [of v h])
    show ?thesis
    proof (cases "k = h")
      case True
      with False show ?thesis by simp
    next
      case False
      with "1.prems" eq have "0 \<le> h + 1" "harmonic_scan v (h + 1) = -1" "h + 1 \<le> k" by simp_all
      with "1.IH" [OF lt \<open>\<not> harmonicBitSet v h\<close>] "1.prems" show ?thesis by blast
    qed
  qed
qed

text \<open>
  The \<open>while\<close> loop started at an active harmonic (or at -1) rewrites the components
  of every active harmonic from there on and nothing else.
\<close>

lemma ProcessCorrections_loop_result:
  assumes "harmonic = -1 \<or> (1 \<le> harmonic \<and> activeHarmonic current harmonic)"
  shows "ProcessCorrections_loop current hist weq bin harmonic corrected =
     corrected\<lparr>fQnX := (\<lambda>k. if harmonic \<noteq> -1 \<and> harmonic \<le> k \<and> activeHarmonic current k
                          then (Qx current k - pcXBinContent hist k bin) /
                               (if weq then pcXBinError hist k bin else 1)
                          else fQnX corrected k),
               fQnY := (\<lambda>k. if harmonic \<noteq> -1 \<and> harmonic \<le> k \<and> activeHarmonic current k
                          then (Qy current k - pcYBinContent hist k bin) /
                               (if weq then pcYBinError hist k bin else 1)
                          else fQnY corrected k)\<rparr>"
  using assms
proof (induction current hist weq bin harmonic corrected rule: ProcessCorrections_loop.induct)
  case (1 current hist weq bin harmonic corrected)
  let ?rx = "\<lambda>k. (Qx current k - pcXBinContent hist k bin) / (if weq then pcXBinError hist k bin else 1)"
  let ?ry = "\<lambda>k. (Qy current k - pcYBinContent hist k bin) / (if weq then pcYBinError hist k bin else 1)"
  show ?case
  proof (cases "harmonic = -1")
    case True
    then show ?thesis by (subst ProcessCorrections_loop.simps) simp
  next
    case False
    with "1.prems" have h1: "1 \<le> harmonic" and act: "activeHarmonic current harmonic" by simp_all
    let ?next = "GetNextHarmonic current harmonic"
    let ?c2 = "SetQy harmonic (?ry harmonic) (SetQx harmonic (?rx harmonic) corrected)"
    have step: "ProcessCorrections_loop current hist weq bin harmonic corrected =
                ProcessCorrections_loop current hist weq bin ?next ?c2"
      using False
      by (subst ProcessCorrections_loop.simps) (simp add: Let_def)
    have range: "?next = -1 \<or> (harmonic + 1 \<le> ?next \<and> ?next \<le> fHighestHarmonic current \<and> harmonicBitSet current ?next)"
      using harmonic_scan_range [of current "harmonic + 1"] by (simp add: GetNextHarmonic_def)
    then have pre: "?next = -1 \<or> (1 \<le> ?next \<and> activeHarmonic current ?next)"
      using h1 by (auto simp: activeHarmonic_def)
    have IH: "ProcessCorrections_loop current hist weq bin ?next ?c2 =
       ?c2\<lparr>fQnX := (\<lambda>k. if ?next \<noteq> -1 \<and> ?next \<le> k \<and> activeHarmonic current k
                          then ?rx k else fQnX ?c2 k),
               fQnY := (\<lambda>k. if ?next \<noteq> -1 \<and> ?next \<le> k \<and> activeHarmonic current k
                          then ?ry k else fQnY ?c2 k)\<rparr>"
      using "1.IH" [OF False refl refl refl refl pre] .
    have between: "\<not> activeHarmonic current k" if "harmonic < k" and "?next = -1 \<or> k < ?next" for k
    proof (cases "?next = -1")
      case True
      show ?thesis
      proof
        assume a: "activeHarmonic current k"
        then have "k \<le> fHighestHarmonic current" "harmonicBitSet current k"
          by (simp_all add: activeHarmonic_def)
        moreover have "\<not> harmonicBitSet current k"
          using harmonic_scan_exhausted [of "harmonic + 1" current k] True h1 that(1) a
          by (simp add: GetNextHarmonic_def activeHarmonic_def)
        ultimately show False by simp
      qed
    next
      case False
      with that have "k < ?next" by simp
      then have "\<not> harmonicBitSet current k"
        using harmonic_scan_skips [of "harmonic + 1" k current] h1 that(1)
        by (simp add: GetNextHarmonic_def)
      then show ?thesis by (simp add: activeHarmonic_def)
    qed
    have X: "(if ?next \<noteq> -1 \<and> ?next \<le> k \<and> activeHarmonic current k
                          then ?rx k else fQnX ?c2 k) =
             (if harmonic \<le> k \<and> activeHarmonic current k
                          then ?rx k else fQnX corrected k)" for k
      using between [of k] range act
      by (cases "k = harmonic") (auto simp: SetQx_def SetQy_def)
    have Y: "(if ?next \<noteq> -1 \<and> ?next \<le> k \<and> activeHarmonic current k
                          then ?ry k else fQnY ?c2 k) =
             (if harmonic \<le> k \<and> activeHarmonic current k
                          then ?ry k else fQnY corrected k)" for k
      using between [of k] range act
      by (cases "k = harmonic") (auto simp: SetQx_def SetQy_def)
    show ?thesis
      unfolding step IH X Y using False
      by (simp add: SetQx_def SetQy_def)
  qed
qed

lemma GetFirstHarmonic_result:
  "ProcessCorrections_loop current hist weq bin (GetFirstHarmonic current) corrected =
     corrected\<lparr>fQnX := (\<lambda>k. if activeHarmonic current k
                          then (Qx current k - pcXBinContent hist k bin) /
                               (if weq then pcXBinError hist k bin else 1)
                          else fQnX corrected k),
               fQnY := (\<lambda>k. if activeHarmonic current k
                          then (Qy current k - pcYBinContent hist k bin) /
                               (if weq then pcYBinError hist k bin else 1)
                          else fQnY corrected k)\<rparr>"
proof -
  let ?first = "GetFirstHarmonic current"
  have range: "?first = -1 \<or> (1 \<le> ?first \<and> ?first \<le> fHighestHarmonic current \<and> harmonicBitSet current ?first)"
    using harmonic_scan_range [of current 1] by (simp add: GetFirstHarmonic_def)
  then have pre: "?first = -1 \<or> (1 \<le> ?first \<and> activeHarmonic current ?first)"
    by (auto simp: activeHarmonic_def)
  have before: "?first \<noteq> -1 \<and> ?first \<le> k" if "activeHarmonic current k" for k
  proof -
    from that have k: "1 \<le> k" "k \<le> fHighestHarmonic current" "harmonicBitSet current k"
      by (simp_all add: activeHarmonic_def)
    have "?first \<noteq> -1"
      using harmonic_scan_exhausted [of 1 current k] k by (auto simp: GetFirstHarmonic_def)
    moreover have "\<not> k < ?first"
      using harmonic_scan_skips [of 1 k current] k by (auto simp: GetFirstHarmonic_def)
    ultimately show ?thesis by simp
  qed
  have "(?first \<noteq> -1 \<and> ?first \<le> k \<and> activeHarmonic current k) = activeHarmonic current k" for k
    using before [of k] by blast
  then show ?thesis
    by (simp add: ProcessCorrections_loop_result [OF pre])
qed

text \<open>\<open>ProcessCorrections\<close>, branch by branch.\<close>

lemma ProcessCorrections_calibration_branch:
  "fState s = QCORRSTEP_calibration \<Longrightarrow> ProcessCorrections vc s = Inr (False, s)"
  by (simp add: ProcessCorrections_def)

lemma ProcessCorrections_bad_input_branch:
  assumes "fState s \<noteq> QCORRSTEP_calibration"
      and "\<not> IsGoodQuality (GetCurrentQnVector (fDetectorConfiguration s))"
  shows "ProcessCorrections vc s =
           Inr (True, s\<lparr>fCorrectedQnVector := SetGood False (fCorrectedQnVector s),
                        fDetectorConfiguration :=
                          UpdateCurrentQnVector (SetGood False (fCorrectedQnVector s))
                            (fDetectorConfiguration s)\<rparr>)"
  using assms
  by (cases "fState s") (simp_all add: ProcessCorrections_def Let_def)

lemma ProcessCorrections_fatal:
  assumes "fState s \<noteq> QCORRSTEP_calibration"
      and "IsGoodQuality (GetCurrentQnVector (fDetectorConfiguration s))"
      and "\<not> sameHarmonicStructure (fCorrectedQnVector s) (GetCurrentQnVector (fDetectorConfiguration s))"
  shows "ProcessCorrections vc s = Inl Fatal"
  using assms
  by (cases "fState s") (auto simp: ProcessCorrections_def Let_def Set_def sameHarmonicStructure_def)

lemma Set_same:
  "sameHarmonicStructure v Qn \<Longrightarrow>
   Set Qn False v = Inr (v\<lparr>fQnX := fQnX Qn, fQnY := fQnY Qn, fGoodQuality := fGoodQuality Qn\<rparr>)"
  by (auto simp: Set_def sameHarmonicStructure_def Let_def)

lemma ProcessCorrections_validated_branch:
  assumes "fState s \<noteq> QCORRSTEP_calibration"
      and "IsGoodQuality (GetCurrentQnVector (fDetectorConfiguration s))"
      and "sameHarmonicStructure (fCorrectedQnVector s) (GetCurrentQnVector (fDetectorConfiguration s))"
      and "BinContentValidated (fInputHistograms s) (pcGetBin (fInputHistograms s) vc)"
  shows "ProcessCorrections vc s =
     (let current = GetCurrentQnVector (fDetectorConfiguration s);
          hist = fInputHistograms s; bin = pcGetBin hist vc;
          corrected = (fCorrectedQnVector s)
            \<lparr>fQnX := (\<lambda>k. if activeHarmonic current k
                          then (Qx current k - pcXBinContent hist k bin) /
                               (if fApplyWidthEqualization s then pcXBinError hist k bin else 1)
                          else fQnX current k),
             fQnY := (\<lambda>k. if activeHarmonic current k
                          then (Qy current k - pcYBinContent hist k bin) /
                               (if fApplyWidthEqualization s then pcYBinError hist k bin else 1)
                          else fQnY current k),
             fGoodQuality := True\<rparr>
      in Inr (True, s\<lparr>fCorrectedQnVector := corrected,
                      fDetectorConfiguration := UpdateCurrentQnVector corrected (fDetectorConfiguration s)\<rparr>))"
  using assms
  by (cases "fState s"; cases "fCorrectedQnVector s")
     (simp_all add: ProcessCorrections_def Let_def Set_same GetFirstHarmonic_result IsGoodQuality_def
        cong: if_cong)

lemma ProcessCorrections_unvalidated_branch:
  assumes "fState s \<noteq> QCORRSTEP_calibration"
      and "IsGoodQuality (GetCurrentQnVector (fDetectorConfiguration s))"
      and "sameHarmonicStructure (fCorrectedQnVector s) (GetCurrentQnVector (fDetectorConfiguration s))"
      and "\<not> BinContentValidated (fInputHistograms s) (pcGetBin (fInputHistograms s) vc)"
  shows "ProcessCorrections vc s =
     (let current = GetCurrentQnVector (fDetectorConfiguration s);
          corrected = (fCorrectedQnVector s)
            \<lparr>fQnX := fQnX current, fQnY := fQnY current, fGoodQuality := True\<rparr>
      in Inr (True, s\<lparr>fCorrectedQnVector := corrected,
                      fQANotValidatedBin :=
                        (case fQANotValidatedBin s of None \<Rightarrow> None
                         | Some h \<Rightarrow> Some (Fill vc 1 h)),
                      fDetectorConfiguration := UpdateCurrentQnVector corrected (fDetectorConfiguration s)\<rparr>))"
  using assms
  by (cases "fState s")
     (simp_all add: ProcessCorrections_def Let_def Set_same IsGoodQuality_def)

text \<open>
  Vectors built by the constructor from one harmonic map share the harmonic
  structure, and \<open>ProcessCorrections\<close> never changes the structure of the step's
  output: the structural hypothesis of the theorems below holds for a step and a
  detector configuration set up from the same map.
\<close>

lemma QnVector_ctor_same_structure:
  "QnVector_ctor name1 nNoOfHarmonics harmonicMap = Inr v1 \<Longrightarrow>
   QnVector_ctor name2 nNoOfHarmonics harmonicMap = Inr v2 \<Longrightarrow>
   sameHarmonicStructure v1 v2"
  by (auto simp: QnVector_ctor_def Let_def sameHarmonicStructure_def split: if_splits)

lemma ProcessCorrections_keeps_structure:
  assumes "ProcessCorrections vc s = Inr (applied, s')"
  shows "sameHarmonicStructure (fCorrectedQnVector s') (fCorrectedQnVector s)"
proof (cases "fState s = QCORRSTEP_calibration")
  case True
  with assms show ?thesis
    by (simp add: ProcessCorrections_calibration_branch sameHarmonicStructure_def)
next
  case st: False
  show ?thesis
  proof (cases "IsGoodQuality (GetCurrentQnVector (fDetectorConfiguration s))")
    case False
    with assms st show ?thesis
      by (auto simp: ProcessCorrections_bad_input_branch sameHarmonicStructure_def SetGood_def)
  next
    case good: True
    show ?thesis
    proof (cases "sameHarmonicStructure (fCorrectedQnVector s) (GetCurrentQnVector (fDetectorConfiguration s))")
      case False
      with assms st good show ?thesis
        by (simp add: ProcessCorrections_fatal)
    next
      case same: True
      show ?thesis
      proof (cases "BinContentValidated (fInputHistograms s) (pcGetBin (fInputHistograms s) vc)")
        case True
        with assms show ?thesis
          by (auto simp: ProcessCorrections_validated_branch [OF st good same True] Let_def
              sameHarmonicStructure_def)
      next
        case False
        with assms show ?thesis
          by (auto simp: ProcessCorrections_unvalidated_branch [OF st good same False] Let_def
              sameHarmonicStructure_def)
      qed
    qed
  qed
qed

lemma active_Qn_5_5: "activeHarmonic Qn_5_5 1"
  by (simp add: activeHarmonic_def harmonicBitSet_def harmonicNumberMask_1 Qn_5_5_def)

lemma same_rec_5_5: "sameHarmonicStructure Qn_rec Qn_5_5"
  by (simp add: sameHarmonicStructure_def Qn_rec_def Qn_5_5_def)

text \<open>
  Claim C2. In \<open>APPLY_COLLECT\<close> or \<open>APPLY\<close>, with a good quality current Qn vector and a
  validated bin for the event class, \<open>ProcessCorrections\<close> returns \<open>kTRUE\<close> and the
  corrected output holds, at every active harmonic, \<open>(currentX - meanX) / widthX\<close> and
  \<open>(currentY - meanY) / widthY\<close>: the means are the bin contents, the widths are 1
  unless width equalization is on, when they are the bin errors. The other
  components are the copies \<open>Set\<close> made. The step's output vector and the current
  vector share the harmonic structure (both are built from the detector
  configuration's harmonic map); without that \<open>Set\<close> stops the program
  (\<open>ProcessCorrections_fatal\<close>).
\<close>

theorem ProcessCorrections_recenters:
  assumes "fState s \<noteq> QCORRSTEP_calibration"
      and "IsGoodQuality (GetCurrentQnVector (fDetectorConfiguration s))"
      and "BinContentValidated (fInputHistograms s) (pcGetBin (fInputHistograms s) vc)"
      and "sameHarmonicStructure (fCorrectedQnVector s) (GetCurrentQnVector (fDetectorConfiguration s))"
  shows "\<exists>s'. ProcessCorrections vc s = Inr (True, s') \<and>
           IsGoodQuality (fCorrectedQnVector s') \<and>
           (\<forall>h. activeHarmonic (GetCurrentQnVector (fDetectorConfiguration s)) h \<longrightarrow>
                Qx (fCorrectedQnVector s') h =
                  (Qx (GetCurrentQnVector (fDetectorConfiguration s)) h -
                   pcXBinContent (fInputHistograms s) h (pcGetBin (fInputHistograms s) vc)) /
                  (if fApplyWidthEqualization s
                   then pcXBinError (fInputHistograms s) h (pcGetBin (fInputHistograms s) vc)
                   else 1) \<and>
                Qy (fCorrectedQnVector s') h =
                  (Qy (GetCurrentQnVector (fDetectorConfiguration s)) h -
                   pcYBinContent (fInputHistograms s) h (pcGetBin (fInputHistograms s) vc)) /
                  (if fApplyWidthEqualization s
                   then pcYBinError (fInputHistograms s) h (pcGetBin (fInputHistograms s) vc)
                   else 1)) \<and>
           (\<forall>h. \<not> activeHarmonic (GetCurrentQnVector (fDetectorConfiguration s)) h \<longrightarrow>
                Qx (fCorrectedQnVector s') h = Qx (GetCurrentQnVector (fDetectorConfiguration s)) h \<and>
                Qy (fCorrectedQnVector s') h = Qy (GetCurrentQnVector (fDetectorConfiguration s)) h)"
  by (simp add: ProcessCorrections_validated_branch [OF assms(1,2,4,3)] Let_def Qx_def Qy_def IsGoodQuality_def)

theorem ProcessCorrections_recenters_witness:
  "(\<exists>s'. ProcessCorrections [] recentering_step = Inr (True, s') \<and>
         Qx (fCorrectedQnVector s') 1 = 3 \<and> Qy (fCorrectedQnVector s') 1 = 3) \<and>
   (\<exists>s'. ProcessCorrections [] (recentering_step\<lparr>fApplyWidthEqualization := True\<rparr>) = Inr (True, s') \<and>
         Qx (fCorrectedQnVector s') 1 = 3 / 4 \<and> Qy (fCorrectedQnVector s') 1 = 3 / 4)"
proof -
  have gen: "\<exists>s'. ProcessCorrections [] st = Inr (True, s') \<and>
               Qx (fCorrectedQnVector s') 1 = 3 / (if w then 4 else 1) \<and>
               Qy (fCorrectedQnVector s') 1 = 3 / (if w then 4 else 1)"
    if st: "st = recentering_step\<lparr>fApplyWidthEqualization := w\<rparr>" for st w
  proof -
    have 1: "fState st \<noteq> QCORRSTEP_calibration"
      by (simp add: st recentering_step_def)
    have 2: "IsGoodQuality (GetCurrentQnVector (fDetectorConfiguration st))"
      by (simp add: st recentering_step_def GetCurrentQnVector_def IsGoodQuality_def Qn_5_5_def)
    have 3: "BinContentValidated (fInputHistograms st) (pcGetBin (fInputHistograms st) [])"
      by (simp add: st recentering_step_def BinContentValidated_def profile_mean_2_2_def
          fDefaultMinNoOfEntries_def)
    have 4: "sameHarmonicStructure (fCorrectedQnVector st)
               (GetCurrentQnVector (fDetectorConfiguration st))"
      using same_rec_5_5 by (simp add: st recentering_step_def GetCurrentQnVector_def)
    have 5: "activeHarmonic (GetCurrentQnVector (fDetectorConfiguration st)) 1"
      using active_Qn_5_5 by (simp add: st recentering_step_def GetCurrentQnVector_def)
    have cur: "Qx (GetCurrentQnVector (fDetectorConfiguration st)) 1 = 5"
              "Qy (GetCurrentQnVector (fDetectorConfiguration st)) 1 = 5"
      by (simp_all add: st recentering_step_def GetCurrentQnVector_def Qn_5_5_def Qx_def Qy_def)
    have hist: "pcXBinContent (fInputHistograms st) 1 (pcGetBin (fInputHistograms st) []) = 2"
               "pcYBinContent (fInputHistograms st) 1 (pcGetBin (fInputHistograms st) []) = 2"
               "pcXBinError (fInputHistograms st) 1 (pcGetBin (fInputHistograms st) []) = 4"
               "pcYBinError (fInputHistograms st) 1 (pcGetBin (fInputHistograms st) []) = 4"
               "fApplyWidthEqualization st = w"
      by (simp_all add: st recentering_step_def profile_mean_2_2_def)
    from ProcessCorrections_recenters [OF 1 2 3 4]
    obtain s' where r: "ProcessCorrections [] st = Inr (True, s')"
      and f: "\<forall>h. activeHarmonic (GetCurrentQnVector (fDetectorConfiguration st)) h \<longrightarrow>
                Qx (fCorrectedQnVector s') h =
                  (Qx (GetCurrentQnVector (fDetectorConfiguration st)) h -
                   pcXBinContent (fInputHistograms st) h (pcGetBin (fInputHistograms st) [])) /
                  (if fApplyWidthEqualization st
                   then pcXBinError (fInputHistograms st) h (pcGetBin (fInputHistograms st) [])
                   else 1) \<and>
                Qy (fCorrectedQnVector s') h =
                  (Qy (GetCurrentQnVector (fDetectorConfiguration st)) h -
                   pcYBinContent (fInputHistograms st) h (pcGetBin (fInputHistograms st) [])) /
                  (if fApplyWidthEqualization st
                   then pcYBinError (fInputHistograms st) h (pcGetBin (fInputHistograms st) [])
                   else 1)"
      by blast
    from f [THEN spec, of 1] 5
    have "Qx (fCorrectedQnVector s') 1 = 3 / (if w then 4 else 1) \<and>
          Qy (fCorrectedQnVector s') 1 = 3 / (if w then 4 else 1)"
      by (simp add: cur hist)
    with r show ?thesis by blast
  qed
  have plain: "recentering_step = recentering_step\<lparr>fApplyWidthEqualization := False\<rparr>"
    by (simp add: recentering_step_def)
  show ?thesis
    using gen [OF plain] gen [OF refl, of True] by simp
qed

text \<open>
  Claim C3 as stated fails when the not-validated QA histogram was never created
  (\<open>fQANotValidatedBin\<close> is \<open>NULL\<close>, its value after construction): the step is applying,
  the current vector is good, the bin has 1 entry against the threshold 2, and after
  the call there is still no histogram, so nothing was incremented.
\<close>

theorem ProcessCorrections_no_nve_histogram:
  "fState (recentering_step\<lparr>fInputHistograms := profile_mean_2_2\<lparr>pcEntries := (\<lambda>_. 1)\<rparr>,
                            fQANotValidatedBin := None\<rparr>) = QCORRSTEP_apply \<and>
   IsGoodQuality (GetCurrentQnVector (fDetectorConfiguration recentering_step)) \<and>
   \<not> BinContentValidated (profile_mean_2_2\<lparr>pcEntries := (\<lambda>_. 1)\<rparr>) 0 \<and>
   (\<exists>s'. ProcessCorrections []
           (recentering_step\<lparr>fInputHistograms := profile_mean_2_2\<lparr>pcEntries := (\<lambda>_. 1)\<rparr>,
                            fQANotValidatedBin := None\<rparr>) = Inr (True, s') \<and>
         fQANotValidatedBin s' = None)"
  using same_rec_5_5
  by (simp add: ProcessCorrections_def recentering_step_def GetCurrentQnVector_def IsGoodQuality_def
      Qn_5_5_def Qn_rec_def Set_def BinContentValidated_def profile_mean_2_2_def
      fDefaultMinNoOfEntries_def Let_def)

text \<open>
  Claim C3, amended. In \<open>APPLY_COLLECT\<close> or \<open>APPLY\<close>, with a good quality current Qn
  vector and a bin that is not validated, the corrected output takes the current
  vector's components unchanged (and its good quality), and the not-validated
  histogram, when it exists, has the content of the event's bin incremented by 1
  and every other bin unchanged; when it does not exist nothing is recorded.
\<close>

theorem ProcessCorrections_not_validated_untouched:
  assumes "fState s \<noteq> QCORRSTEP_calibration"
      and "IsGoodQuality (GetCurrentQnVector (fDetectorConfiguration s))"
      and "\<not> BinContentValidated (fInputHistograms s) (pcGetBin (fInputHistograms s) vc)"
      and "sameHarmonicStructure (fCorrectedQnVector s) (GetCurrentQnVector (fDetectorConfiguration s))"
  shows "\<exists>s'. ProcessCorrections vc s = Inr (True, s') \<and>
           fQnX (fCorrectedQnVector s') = fQnX (GetCurrentQnVector (fDetectorConfiguration s)) \<and>
           fQnY (fCorrectedQnVector s') = fQnY (GetCurrentQnVector (fDetectorConfiguration s)) \<and>
           IsGoodQuality (fCorrectedQnVector s') \<and>
           (case fQANotValidatedBin s of
              None \<Rightarrow> fQANotValidatedBin s' = None
            | Some nve \<Rightarrow>
                (\<exists>nve'. fQANotValidatedBin s' = Some nve' \<and>
                   hsBinContent nve' (hsGetBin nve vc) = hsBinContent nve (hsGetBin nve vc) + 1 \<and>
                   (\<forall>bin. bin \<noteq> hsGetBin nve vc \<longrightarrow> hsBinContent nve' bin = hsBinContent nve bin)))"
  by (simp add: ProcessCorrections_unvalidated_branch [OF assms(1,2,4,3)] Let_def IsGoodQuality_def
      Fill_def split: option.split)

theorem ProcessCorrections_not_validated_untouched_witness:
  "\<exists>s'. ProcessCorrections []
          (recentering_step\<lparr>fInputHistograms := profile_mean_2_2\<lparr>pcEntries := (\<lambda>_. 1)\<rparr>\<rparr>) =
          Inr (True, s') \<and>
        fQnX (fCorrectedQnVector s') 1 = 5 \<and> fQnY (fCorrectedQnVector s') 1 = 5 \<and>
        (\<exists>nve'. fQANotValidatedBin s' = Some nve' \<and> hsBinContent nve' 0 = 1)"
proof -
  let ?s = "recentering_step\<lparr>fInputHistograms := profile_mean_2_2\<lparr>pcEntries := (\<lambda>_. 1)\<rparr>\<rparr>"
  have 1: "fState ?s \<noteq> QCORRSTEP_calibration"
    by (simp add: recentering_step_def)
  have 2: "IsGoodQuality (GetCurrentQnVector (fDetectorConfiguration ?s))"
    by (simp add: recentering_step_def GetCurrentQnVector_def IsGoodQuality_def Qn_5_5_def)
  have 3: "\<not> BinContentValidated (fInputHistograms ?s) (pcGetBin (fInputHistograms ?s) [])"
    by (simp add: BinContentValidated_def profile_mean_2_2_def fDefaultMinNoOfEntries_def)
  have 4: "sameHarmonicStructure (fCorrectedQnVector ?s)
             (GetCurrentQnVector (fDetectorConfiguration ?s))"
    using same_rec_5_5 by (simp add: recentering_step_def GetCurrentQnVector_def)
  show ?thesis
    using ProcessCorrections_not_validated_untouched [OF 1 2 3 4]
    by (auto simp: recentering_step_def GetCurrentQnVector_def Qn_5_5_def nve_histogram_def)
qed

text \<open>The example vectors are what the constructor builds for one harmonic.\<close>

lemma QnVector_ctor_rec: "QnVector_ctor ''rec'' 1 None = Inr Qn_rec"
  by (simp add: QnVector_ctor_def MAXHARMONICNUMBERSUPPORTED_def Qn_rec_def
      for_loop.simps [of 0 1] for_loop.simps [of 1 1] QnVector_ctor_body_def harmonicNumberMask_1)

lemma QnVector_ctor_plain:
  "QnVector_ctor ''plain'' 1 (Some [1]) = Inr (Reset Qn_5_5)"
  by (simp add: QnVector_ctor_def MAXHARMONICNUMBERSUPPORTED_def Qn_5_5_def Reset_def
      for_loop.simps [of 0 1] for_loop.simps [of 1 1] QnVector_ctor_body_def harmonicNumberMask_1)

text \<open>
  The output vector of a step is bad quality after construction and after
  \<open>ClearCorrectionStep\<close>, and \<open>ProcessCorrections\<close> keeps \<open>outputBadWhileCalibrating\<close>.
\<close>

lemma QnVector_ctor_bad_quality:
  "QnVector_ctor name nNoOfHarmonics harmonicMap = Inr v \<Longrightarrow> \<not> IsGoodQuality v"
  by (auto simp: QnVector_ctor_def Let_def IsGoodQuality_def split: if_splits)

lemma ClearCorrectionStep_bad_quality:
  "\<not> IsGoodQuality (fCorrectedQnVector (ClearCorrectionStep s))"
  by (simp add: ClearCorrectionStep_def Reset_def IsGoodQuality_def)

lemma ClearCorrectionStep_outputBadWhileCalibrating:
  "outputBadWhileCalibrating (ClearCorrectionStep s)"
  by (simp add: outputBadWhileCalibrating_def ClearCorrectionStep_bad_quality)

lemma ProcessCorrections_outputBadWhileCalibrating:
  "outputBadWhileCalibrating s \<Longrightarrow> ProcessCorrections vc s = Inr (applied, s') \<Longrightarrow>
   outputBadWhileCalibrating s'"
  by (cases "fState s")
     (auto simp: outputBadWhileCalibrating_def ProcessCorrections_def Let_def
        split: if_splits sum.splits)

text \<open>
  Claim C4. When the current Qn vector (the input of the correction) has bad quality,
  \<open>ProcessCorrections\<close> returns normally, the step's output vector is bad quality
  afterwards and its components are the ones it had before; the calibration input
  and the QA histogram are not touched, and the detector's current vector is bad
  quality afterwards, so the flag reaches the next step. In \<open>CALIBRATION\<close> the function
  returns \<open>kFALSE\<close> before looking at anything, and the output is bad quality because
  it has been so since construction (\<open>outputBadWhileCalibrating\<close>).
\<close>

theorem ProcessCorrections_bad_quality:
  assumes "\<not> IsGoodQuality (GetCurrentQnVector (fDetectorConfiguration s))"
      and "outputBadWhileCalibrating s"
  shows "\<exists>applied s'. ProcessCorrections vc s = Inr (applied, s') \<and>
           \<not> IsGoodQuality (fCorrectedQnVector s') \<and>
           fQnX (fCorrectedQnVector s') = fQnX (fCorrectedQnVector s) \<and>
           fQnY (fCorrectedQnVector s') = fQnY (fCorrectedQnVector s) \<and>
           fInputHistograms s' = fInputHistograms s \<and>
           fQANotValidatedBin s' = fQANotValidatedBin s \<and>
           \<not> IsGoodQuality (GetCurrentQnVector (fDetectorConfiguration s')) \<and>
           applied = (fState s \<noteq> QCORRSTEP_calibration)"
proof (cases "fState s = QCORRSTEP_calibration")
  case True
  with assms show ?thesis
    by (auto simp: ProcessCorrections_calibration_branch outputBadWhileCalibrating_def)
next
  case False
  show ?thesis
    using False
    by (auto simp: ProcessCorrections_bad_input_branch [OF False assms(1)] SetGood_def IsGoodQuality_def
        UpdateCurrentQnVector_def GetCurrentQnVector_def)
qed

theorem ProcessCorrections_bad_quality_witness:
  "\<exists>s'. ProcessCorrections []
          (recentering_step\<lparr>fDetectorConfiguration :=
               \<lparr>fCurrentQnVector = Qn_5_5\<lparr>fGoodQuality := False\<rparr>, fDataVectorBank = []\<rparr>,
             fCorrectedQnVector := Qn_3_4\<rparr>) = Inr (True, s') \<and>
        \<not> IsGoodQuality (fCorrectedQnVector s') \<and>
        fQnX (fCorrectedQnVector s') 1 = 3 \<and> fQnY (fCorrectedQnVector s') 1 = 4"
proof -
  let ?s = "recentering_step\<lparr>fDetectorConfiguration :=
               \<lparr>fCurrentQnVector = Qn_5_5\<lparr>fGoodQuality := False\<rparr>, fDataVectorBank = []\<rparr>,
             fCorrectedQnVector := Qn_3_4\<rparr>"
  have 1: "\<not> IsGoodQuality (GetCurrentQnVector (fDetectorConfiguration ?s))"
    by (simp add: GetCurrentQnVector_def IsGoodQuality_def)
  have 2: "outputBadWhileCalibrating ?s"
    by (simp add: outputBadWhileCalibrating_def recentering_step_def)
  show ?thesis
    using ProcessCorrections_bad_quality [OF 1 2, of "[]"]
    by (auto simp: recentering_step_def Qn_3_4_def)
qed

text \<open>
  Claim C10. In \<open>APPLY_COLLECT\<close> and \<open>APPLY\<close>, \<open>ProcessCorrections\<close> returns \<open>kTRUE\<close> and
  the detector configuration after the call is the one before it with the current
  Qn vector replaced by the step's own output (nothing else of it changes), whether
  the input was bad quality, the bin not validated, or the correction computed. The
  output itself is, from the state before the call: the old output marked bad for a
  bad quality input; the recentred components for a validated bin; the current
  vector's components for a bin that is not validated (a good quality input has the
  output's harmonic structure, as in C2). In \<open>CALIBRATION\<close> the function returns
  \<open>kFALSE\<close> and the whole state, the current Qn vector included, is unchanged.
\<close>

theorem ProcessCorrections_updates_current:
  "(fState s \<noteq> QCORRSTEP_calibration \<and>
    (IsGoodQuality (GetCurrentQnVector (fDetectorConfiguration s)) \<longrightarrow>
       sameHarmonicStructure (fCorrectedQnVector s) (GetCurrentQnVector (fDetectorConfiguration s))) \<longrightarrow>
      (\<exists>s'. ProcessCorrections vc s = Inr (True, s') \<and>
            fDetectorConfiguration s' =
              (fDetectorConfiguration s)\<lparr>fCurrentQnVector := fCorrectedQnVector s'\<rparr> \<and>
            fState s' = fState s \<and>
            fCorrectedQnVector s' =
              (let current = GetCurrentQnVector (fDetectorConfiguration s);
                   hist = fInputHistograms s;
                   bin = pcGetBin hist vc
               in if \<not> IsGoodQuality current then
                    (fCorrectedQnVector s)\<lparr>fGoodQuality := False\<rparr>
                  else if BinContentValidated hist bin then
                    (fCorrectedQnVector s)
                      \<lparr>fQnX := (\<lambda>k. if activeHarmonic current k
                                    then (Qx current k - pcXBinContent hist k bin) /
                                         (if fApplyWidthEqualization s then pcXBinError hist k bin else 1)
                                    else fQnX current k),
                       fQnY := (\<lambda>k. if activeHarmonic current k
                                    then (Qy current k - pcYBinContent hist k bin) /
                                         (if fApplyWidthEqualization s then pcYBinError hist k bin else 1)
                                    else fQnY current k),
                       fGoodQuality := True\<rparr>
                  else
                    (fCorrectedQnVector s)
                      \<lparr>fQnX := fQnX current, fQnY := fQnY current, fGoodQuality := True\<rparr>))) \<and>
   (fState s = QCORRSTEP_calibration \<longrightarrow> ProcessCorrections vc s = Inr (False, s))"
proof (intro conjI impI)
  assume "fState s = QCORRSTEP_calibration"
  then show "ProcessCorrections vc s = Inr (False, s)"
    by (rule ProcessCorrections_calibration_branch)
next
  assume a: "fState s \<noteq> QCORRSTEP_calibration \<and>
    (IsGoodQuality (GetCurrentQnVector (fDetectorConfiguration s)) \<longrightarrow>
       sameHarmonicStructure (fCorrectedQnVector s) (GetCurrentQnVector (fDetectorConfiguration s)))"
  then have st: "fState s \<noteq> QCORRSTEP_calibration" by simp
  let ?goal = "\<exists>s'. ProcessCorrections vc s = Inr (True, s') \<and>
            fDetectorConfiguration s' =
              (fDetectorConfiguration s)\<lparr>fCurrentQnVector := fCorrectedQnVector s'\<rparr> \<and>
            fState s' = fState s \<and>
            fCorrectedQnVector s' =
              (let current = GetCurrentQnVector (fDetectorConfiguration s);
                   hist = fInputHistograms s;
                   bin = pcGetBin hist vc
               in if \<not> IsGoodQuality current then
                    (fCorrectedQnVector s)\<lparr>fGoodQuality := False\<rparr>
                  else if BinContentValidated hist bin then
                    (fCorrectedQnVector s)
                      \<lparr>fQnX := (\<lambda>k. if activeHarmonic current k
                                    then (Qx current k - pcXBinContent hist k bin) /
                                         (if fApplyWidthEqualization s then pcXBinError hist k bin else 1)
                                    else fQnX current k),
                       fQnY := (\<lambda>k. if activeHarmonic current k
                                    then (Qy current k - pcYBinContent hist k bin) /
                                         (if fApplyWidthEqualization s then pcYBinError hist k bin else 1)
                                    else fQnY current k),
                       fGoodQuality := True\<rparr>
                  else
                    (fCorrectedQnVector s)
                      \<lparr>fQnX := fQnX current, fQnY := fQnY current, fGoodQuality := True\<rparr>)"
  show ?goal
  proof (cases "IsGoodQuality (GetCurrentQnVector (fDetectorConfiguration s))")
    case False
    then show ?thesis
      by (simp add: ProcessCorrections_bad_input_branch [OF st False] UpdateCurrentQnVector_def
          SetGood_def Let_def)
  next
    case True
    with a have same: "sameHarmonicStructure (fCorrectedQnVector s)
        (GetCurrentQnVector (fDetectorConfiguration s))" by simp
    show ?thesis
    proof (cases "BinContentValidated (fInputHistograms s) (pcGetBin (fInputHistograms s) vc)")
      case v: True
      show ?thesis
        using True v
        by (simp add: ProcessCorrections_validated_branch [OF st True same v] Let_def
            UpdateCurrentQnVector_def)
    next
      case v: False
      show ?thesis
        using True v
        by (simp add: ProcessCorrections_unvalidated_branch [OF st True same v] Let_def
            UpdateCurrentQnVector_def)
    qed
  qed
qed


theorem ProcessCorrections_updates_current_witness:
  "fName (GetCurrentQnVector (fDetectorConfiguration recentering_step)) = ''plain'' \<and>
   fQnX (GetCurrentQnVector (fDetectorConfiguration recentering_step)) 1 = 5 \<and>
   fQnY (GetCurrentQnVector (fDetectorConfiguration recentering_step)) 1 = 5 \<and>
   (\<exists>s'. ProcessCorrections [] (recentering_step\<lparr>fState := QCORRSTEP_applyCollect\<rparr>) = Inr (True, s') \<and>
         fName (GetCurrentQnVector (fDetectorConfiguration s')) = ''rec'' \<and>
         fQnX (GetCurrentQnVector (fDetectorConfiguration s')) 1 = 3 \<and>
         fQnY (GetCurrentQnVector (fDetectorConfiguration s')) 1 = 3 \<and>
         IsGoodQuality (GetCurrentQnVector (fDetectorConfiguration s'))) \<and>
   (\<exists>s'. ProcessCorrections []
           (recentering_step\<lparr>fDetectorConfiguration :=
              \<lparr>fCurrentQnVector = Qn_5_5\<lparr>fGoodQuality := False\<rparr>, fDataVectorBank = []\<rparr>\<rparr>) =
           Inr (True, s') \<and>
         fName (GetCurrentQnVector (fDetectorConfiguration s')) = ''rec'' \<and>
         fQnX (GetCurrentQnVector (fDetectorConfiguration s')) 1 = 0 \<and>
         fQnY (GetCurrentQnVector (fDetectorConfiguration s')) 1 = 0 \<and>
         \<not> IsGoodQuality (GetCurrentQnVector (fDetectorConfiguration s'))) \<and>
   (\<exists>s'. ProcessCorrections []
           (recentering_step\<lparr>fInputHistograms := profile_mean_2_2\<lparr>pcEntries := (\<lambda>_. 1)\<rparr>\<rparr>) =
           Inr (True, s') \<and>
         fName (GetCurrentQnVector (fDetectorConfiguration s')) = ''rec'' \<and>
         fQnX (GetCurrentQnVector (fDetectorConfiguration s')) 1 = 5 \<and>
         fQnY (GetCurrentQnVector (fDetectorConfiguration s')) 1 = 5 \<and>
         IsGoodQuality (GetCurrentQnVector (fDetectorConfiguration s'))) \<and>
   ProcessCorrections [] (recentering_step\<lparr>fState := QCORRSTEP_calibration\<rparr>) =
     Inr (False, recentering_step\<lparr>fState := QCORRSTEP_calibration\<rparr>)"
proof -
  let ?s1 = "recentering_step\<lparr>fState := QCORRSTEP_applyCollect\<rparr>"
  let ?s2 = "recentering_step\<lparr>fDetectorConfiguration :=
              \<lparr>fCurrentQnVector = Qn_5_5\<lparr>fGoodQuality := False\<rparr>, fDataVectorBank = []\<rparr>\<rparr>"
  let ?s3 = "recentering_step\<lparr>fInputHistograms := profile_mean_2_2\<lparr>pcEntries := (\<lambda>_. 1)\<rparr>\<rparr>"
  let ?s4 = "recentering_step\<lparr>fState := QCORRSTEP_calibration\<rparr>"
  have before: "fName (GetCurrentQnVector (fDetectorConfiguration recentering_step)) = ''plain''"
    "fQnX (GetCurrentQnVector (fDetectorConfiguration recentering_step)) 1 = 5"
    "fQnY (GetCurrentQnVector (fDetectorConfiguration recentering_step)) 1 = 5"
    by (simp_all add: recentering_step_def GetCurrentQnVector_def Qn_5_5_def)
  have act: "activeHarmonic Qn_5_5 k \<longleftrightarrow> k = 1" for k
    by (auto simp: activeHarmonic_def harmonicBitSet_def harmonicNumberMask_1 Qn_5_5_def)
  have same: "sameHarmonicStructure Qn_rec Qn_5_5"
    by (rule same_rec_5_5)
  have 1: "\<exists>s'. ProcessCorrections [] ?s1 = Inr (True, s') \<and>
         fName (GetCurrentQnVector (fDetectorConfiguration s')) = ''rec'' \<and>
         fQnX (GetCurrentQnVector (fDetectorConfiguration s')) 1 = 3 \<and>
         fQnY (GetCurrentQnVector (fDetectorConfiguration s')) 1 = 3 \<and>
         IsGoodQuality (GetCurrentQnVector (fDetectorConfiguration s'))"
    using ProcessCorrections_updates_current [of ?s1 "[]"] same
    by (clarsimp simp: recentering_step_def GetCurrentQnVector_def IsGoodQuality_def
        BinContentValidated_def profile_mean_2_2_def fDefaultMinNoOfEntries_def Let_def act)
       (simp add: Qn_5_5_def Qn_rec_def Qx_def Qy_def)
  have 2: "\<exists>s'. ProcessCorrections [] ?s2 = Inr (True, s') \<and>
         fName (GetCurrentQnVector (fDetectorConfiguration s')) = ''rec'' \<and>
         fQnX (GetCurrentQnVector (fDetectorConfiguration s')) 1 = 0 \<and>
         fQnY (GetCurrentQnVector (fDetectorConfiguration s')) 1 = 0 \<and>
         \<not> IsGoodQuality (GetCurrentQnVector (fDetectorConfiguration s'))"
    using ProcessCorrections_updates_current [of ?s2 "[]"]
    by (clarsimp simp: recentering_step_def GetCurrentQnVector_def IsGoodQuality_def Let_def)
       (simp add: Qn_rec_def)
  have 3: "\<exists>s'. ProcessCorrections [] ?s3 = Inr (True, s') \<and>
         fName (GetCurrentQnVector (fDetectorConfiguration s')) = ''rec'' \<and>
         fQnX (GetCurrentQnVector (fDetectorConfiguration s')) 1 = 5 \<and>
         fQnY (GetCurrentQnVector (fDetectorConfiguration s')) 1 = 5 \<and>
         IsGoodQuality (GetCurrentQnVector (fDetectorConfiguration s'))"
    using ProcessCorrections_updates_current [of ?s3 "[]"] same
    by (clarsimp simp: recentering_step_def GetCurrentQnVector_def IsGoodQuality_def
        BinContentValidated_def profile_mean_2_2_def fDefaultMinNoOfEntries_def Let_def)
       (simp add: Qn_5_5_def Qn_rec_def)
  have 4: "ProcessCorrections [] ?s4 = Inr (False, ?s4)"
    using ProcessCorrections_updates_current [of ?s4 "[]"] by simp
  show ?thesis
    using before 1 2 3 4 by blast
qed

section \<open>Input gain equalization: Process\<close>

lemma groupweight_cases:
  "fUseChannelGroupsWeights s \<Longrightarrow>
     groupweight vc s dv =
       ciGetGrpBinContent (fInputHistogramsGain s) (ciGetGrpBin (fInputHistogramsGain s) vc (fId dv))"
  "\<not> fUseChannelGroupsWeights s \<Longrightarrow> fHardCodedWeights s = Some weights \<Longrightarrow>
     groupweight vc s dv = weights (fId dv)"
  "\<not> fUseChannelGroupsWeights s \<Longrightarrow> fHardCodedWeights s = None \<Longrightarrow> groupweight vc s dv = 1"
  by (simp_all add: groupweight_def GetId_def)

lemma averageEqualization_body_collect:
  "averageEqualization_body vc (s\<lparr>fCalibrationHistogramsGain := h\<rparr>) = averageEqualization_body vc s"
  by (rule ext) (simp add: averageEqualization_body_def groupweight_def Let_def cong: if_cong)

lemma widthEqualization_body_collect:
  "widthEqualization_body vc (s\<lparr>fCalibrationHistogramsGain := h\<rparr>) = widthEqualization_body vc s"
  by (rule ext) (simp add: widthEqualization_body_def groupweight_def Let_def cong: if_cong)

lemma equalize_collect:
  "equalize vc (s\<lparr>fCalibrationHistogramsGain := h\<rparr>) = equalize vc s"
  by (simp add: equalize_def averageEqualization_body_collect widthEqualization_body_collect
      GetInputDataBank_def split: QnGainEqualizationMethod.split)

lemma Process_applying_bank:
  assumes "fState s \<noteq> QCORRSTEP_calibration"
  shows "fst (Process vc s)"
    and "GetInputDataBank (fDetectorConfiguration (snd (Process vc s))) = equalize vc s"
  using assms
  by (cases "fState s"; simp add: Process_def Let_def GetInputDataBank_def equalize_collect)+

text \<open>
  Claim C5. In \<open>APPLY_COLLECT\<close> or \<open>APPLY\<close> with the average method, \<open>Process\<close> returns
  \<open>kTRUE\<close> and every data vector of the bank gets the equalized weight
  \<open>(rawWeight / channelAverage) * groupWeight\<close> when the channel average read from the
  input histograms exceeds 1e-6, and 0 otherwise; raw weight, channel id and angle
  stay as they were.
\<close>

theorem Process_average_equalization:
  assumes "fState s \<noteq> QCORRSTEP_calibration"
      and "fEqualizationMethod s = QEQUAL_averageEqualization"
  shows "fst (Process vc s) \<and>
         length (GetInputDataBank (fDetectorConfiguration (snd (Process vc s)))) =
           length (GetInputDataBank (fDetectorConfiguration s)) \<and>
         (\<forall>i < length (GetInputDataBank (fDetectorConfiguration s)).
            let dataVector = GetInputDataBank (fDetectorConfiguration s) ! i;
                equalized = GetInputDataBank (fDetectorConfiguration (snd (Process vc s))) ! i;
                channelAverage =
                  ciGetBinContent (fInputHistogramsGain s)
                    (ciGetBin (fInputHistogramsGain s) vc (fId dataVector))
            in fEqualizedWeight equalized =
                 (if fMinimumSignificantValue < channelAverage
                  then (fWeight dataVector / channelAverage) * groupweight vc s dataVector
                  else 0) \<and>
               fWeight equalized = fWeight dataVector \<and>
               fId equalized = fId dataVector \<and>
               fPhi equalized = fPhi dataVector)"
  using assms
  by (simp add: Process_applying_bank equalize_def averageEqualization_body_def Let_def
      SetEqualizedWeight_def Weight_def GetId_def)

theorem Process_average_equalization_witness:
  "fEqualizedWeight (GetInputDataBank (fDetectorConfiguration (snd (Process [] gain_step))) ! 0) = 1 / 2 \<and>
   fEqualizedWeight (GetInputDataBank (fDetectorConfiguration (snd (Process [] gain_step))) ! 1) = 0 \<and>
   fWeight (GetInputDataBank (fDetectorConfiguration gain_step) ! 0) = 2 \<and>
   ciGetBinContent (fInputHistogramsGain gain_step)
     (ciGetBin (fInputHistogramsGain gain_step) [] 0) = 4 \<and>
   groupweight [] gain_step (GetInputDataBank (fDetectorConfiguration gain_step) ! 0) = 1 \<and>
   fWeight (GetInputDataBank (fDetectorConfiguration gain_step) ! 1) = 2 \<and>
   ciGetBinContent (fInputHistogramsGain gain_step)
     (ciGetBin (fInputHistogramsGain gain_step) [] 1) = 1 / 10000000"
proof -
  have 1: "fState gain_step \<noteq> QCORRSTEP_calibration"
    by (simp add: gain_step_def)
  have 2: "fEqualizationMethod gain_step = QEQUAL_averageEqualization"
    by (simp add: gain_step_def)
  have len: "length (GetInputDataBank (fDetectorConfiguration gain_step)) = 2"
    by (simp add: gain_step_def GetInputDataBank_def)
  have gw: "groupweight [] gain_step dv = 1" for dv
    by (simp add: groupweight_def gain_step_def)
  from Process_average_equalization [OF 1 2, of "[]"]
  have all: "\<forall>i < 2.
            let dataVector = GetInputDataBank (fDetectorConfiguration gain_step) ! i;
                equalized = GetInputDataBank (fDetectorConfiguration (snd (Process [] gain_step))) ! i;
                channelAverage =
                  ciGetBinContent (fInputHistogramsGain gain_step)
                    (ciGetBin (fInputHistogramsGain gain_step) [] (fId dataVector))
            in fEqualizedWeight equalized =
                 (if fMinimumSignificantValue < channelAverage
                  then (fWeight dataVector / channelAverage) * groupweight [] gain_step dataVector
                  else 0) \<and>
               fWeight equalized = fWeight dataVector \<and>
               fId equalized = fId dataVector \<and>
               fPhi equalized = fPhi dataVector"
    by (simp add: len)
  have bank: "GetInputDataBank (fDetectorConfiguration gain_step) =
              [\<lparr>fPhi = 0, fId = 0, fWeight = 2, fEqualizedWeight = 2\<rparr>,
               \<lparr>fPhi = 1, fId = 1, fWeight = 2, fEqualizedWeight = 2\<rparr>]"
    and h: "fInputHistogramsGain gain_step = ingress_avg_4"
    by (simp_all add: gain_step_def GetInputDataBank_def)
  have avg0: "ciGetBinContent ingress_avg_4 (ciGetBin ingress_avg_4 [] 0) = 4"
    and avg1: "ciGetBinContent ingress_avg_4 (ciGetBin ingress_avg_4 [] 1) = 1 / 10000000"
    by (simp_all add: ingress_avg_4_def)
  from all [THEN spec, of 0]
  have e0: "fEqualizedWeight (GetInputDataBank (fDetectorConfiguration (snd (Process [] gain_step))) ! 0) = 1 / 2"
    by (simp add: Let_def bank h gw avg0 fMinimumSignificantValue_def)
  from all [THEN spec, of 1]
  have e1: "fEqualizedWeight (GetInputDataBank (fDetectorConfiguration (snd (Process [] gain_step))) ! 1) = 0"
    by (simp add: Let_def bank h gw avg1 fMinimumSignificantValue_def)
  have w0: "fWeight (GetInputDataBank (fDetectorConfiguration gain_step) ! 0) = 2"
    and w1: "fWeight (GetInputDataBank (fDetectorConfiguration gain_step) ! 1) = 2"
    by (simp_all add: bank)
  show ?thesis
    using e0 e1 w0 w1 avg0 avg1 gw unfolding h by blast
qed


end
